theory Spec2Isabelle
  imports Complex_Main "HOL-Library.Word" "HOL-Library.Signed_Division"
begin

section \<open>The gesture-rate governor of ui/events/blink/input_handler_proxy.cc\<close>

text \<open>
  A shallow embedding of \<^verbatim>\<open>InputHandlerProxy\<close> as modified by eBrowser: the model
  message, the rate predictor, the rate-to-delay table, the gesture handlers and the
  dispatch of \<^verbatim>\<open>HandleInputEvent\<close>.

  Conventions of the embedding.
  \<^item> C++ \<^verbatim>\<open>int\<close> is a 32-bit word; \<^verbatim>\<open>a / b\<close> on \<^verbatim>\<open>int\<close> truncates towards zero
    (\<open>sdiv\<close> on the signed reading).
  \<^item> A finite C++ \<^verbatim>\<open>double\<close> or \<^verbatim>\<open>float\<close> is the real number it stands for. The value
    the predictor returns comes from outside this file and is a \<open>double\<close> that may also
    be an infinity or NaN. Where the result of an addition or a multiplication is kept,
    rounded up or truncated, it is first rounded to binary64 by \<open>round_to_double\<close>, a
    function of the environment. The delay table alone is computed on the exact reals:
    a finite rate that reaches it is an integer between 10 and 60, and there its results
    are either exact in binary64 or lie at least 0.07 away from the nearest integer, so
    truncating the real value gives the microsecond count the machine computes.
  \<^item> A member \<^verbatim>\<open>name_\<close> of the class, and a file-scope variable \<^verbatim>\<open>name_\<close>, is written
    \<open>name_'\<close>, since an Isabelle name cannot end in an underscore.
  \<^item> Release build, not Mac: \<^verbatim>\<open>DCHECK\<close>, \<^verbatim>\<open>NOTREACHED\<close>, \<^verbatim>\<open>expect_scroll_update_end_\<close>,
    tracing, histograms and \<^verbatim>\<open>LOG\<close> lines have no effect on the modelled state.
  \<^item> The calls the proxy makes on its collaborators (\<^verbatim>\<open>input_handler_\<close>, \<^verbatim>\<open>client_\<close>,
    \<^verbatim>\<open>base::PlatformThread::Sleep\<close>, the task runner) are appended, in program order, to
    the field \<open>calls\<close> of the state; what the collaborators answer is read from an
    environment record.
  \<^item> \<^verbatim>\<open>exit(1)\<close> is the outcome \<open>ProcessExit 1\<close>.
\<close>

subsection \<open>Types of the surrounding code\<close>

type_synonym int32 = "32 word"

datatype EventDisposition = DID_HANDLE | DID_HANDLE_NON_BLOCKING | DID_NOT_HANDLE | DROP_EVENT

text \<open>The event types the file names; every other type of the enumeration is \<open>OtherType\<close>.\<close>

datatype WebInputEventType =
    Undefined
  | MouseDown | MouseUp | MouseMove | MouseLeave | MouseWheel
  | RawKeyDown | KeyDown | KeyUp | Char
  | GestureScrollBegin | GestureScrollEnd | GestureScrollUpdate
  | GestureFlingStart | GestureFlingCancel
  | GestureTapDown | GestureTapCancel
  | GesturePinchBegin | GesturePinchEnd | GesturePinchUpdate
  | TouchStart | TouchMove | TouchEnd
  | OtherType

definition isKeyboardEventType :: "WebInputEventType \<Rightarrow> bool" where
  "isKeyboardEventType t = (t = RawKeyDown \<or> t = KeyDown \<or> t = KeyUp \<or> t = Char)"

datatype WebGestureDevice =
  WebGestureDeviceUninitialized | WebGestureDeviceTouchpad | WebGestureDeviceTouchscreen

datatype ScrollUnits = PrecisePixels | Pixels | Page

datatype InertialPhaseState = UnknownMomentumPhase | NonMomentumPhase | MomentumPhase

datatype Button = NoButton | Button_Left | Button_Middle | Button_Right

datatype TouchState =
  StateUndefined | StateReleased | StatePressed | StateMoved | StateStationary | StateCancelled

record WebTouchPoint =
  state :: TouchState
  position :: "real \<times> real"

text \<open>
  One record stands for \<^verbatim>\<open>WebInputEvent\<close> and the subclasses the handlers cast it to
  (\<^verbatim>\<open>WebGestureEvent\<close>, \<^verbatim>\<open>WebMouseEvent\<close>, \<^verbatim>\<open>WebMouseWheelEvent\<close>, \<^verbatim>\<open>WebTouchEvent\<close>). The members
  of the union \<^verbatim>\<open>data\<close> are separate fields, named \<open>member_field\<close>; \<^verbatim>\<open>touchesLength\<close> is
  the length of \<open>touches\<close>.
\<close>

record WebInputEvent =
  type :: WebInputEventType
  x :: int
  y :: int
  timeStampSeconds :: real
  sourceDevice :: WebGestureDevice
  modifiers :: int
  scrollBegin_deltaXHint :: real
  scrollBegin_deltaYHint :: real
  scrollBegin_deltaHintUnits :: ScrollUnits
  scrollBegin_targetViewport :: bool
  scrollBegin_inertialPhase :: InertialPhaseState
  scrollUpdate_deltaX :: real
  scrollUpdate_deltaY :: real
  scrollUpdate_velocityX :: real
  scrollUpdate_velocityY :: real
  scrollUpdate_inertialPhase :: InertialPhaseState
  scrollUpdate_deltaUnits :: ScrollUnits
  scrollEnd_deltaUnits :: ScrollUnits
  flingStart_velocityX :: real
  flingStart_velocityY :: real
  pinchUpdate_scale :: real
  pinchUpdate_zoomDisabled :: bool
  button :: Button
  hasPreciseScrollingDeltas :: bool
  touches :: "WebTouchPoint list"

text \<open>\<^verbatim>\<open>WebGestureEvent()\<close>: the default-constructed event.\<close>

definition WebGestureEvent_default :: WebInputEvent where
  "WebGestureEvent_default =
     \<lparr>type = Undefined, x = 0, y = 0, timeStampSeconds = 0,
      sourceDevice = WebGestureDeviceUninitialized, modifiers = 0,
      scrollBegin_deltaXHint = 0, scrollBegin_deltaYHint = 0,
      scrollBegin_deltaHintUnits = PrecisePixels, scrollBegin_targetViewport = False,
      scrollBegin_inertialPhase = UnknownMomentumPhase,
      scrollUpdate_deltaX = 0, scrollUpdate_deltaY = 0,
      scrollUpdate_velocityX = 0, scrollUpdate_velocityY = 0,
      scrollUpdate_inertialPhase = UnknownMomentumPhase,
      scrollUpdate_deltaUnits = PrecisePixels, scrollEnd_deltaUnits = PrecisePixels,
      flingStart_velocityX = 0, flingStart_velocityY = 0,
      pinchUpdate_scale = 0, pinchUpdate_zoomDisabled = False,
      button = NoButton, hasPreciseScrollingDeltas = False, touches = []\<rparr>"

datatype ScrollThread =
  SCROLL_ON_MAIN_THREAD | SCROLL_ON_IMPL_THREAD | SCROLL_IGNORED | SCROLL_UNKNOWN

datatype ScrollInputType = TOUCHSCREEN | WHEEL | NON_BUBBLING_GESTURE

datatype EventListenerClass = kMouseWheel | kTouchStartOrMove | kTouchEndOrCancel

datatype EventListenerProperties = kNone | kPassive | kBlocking | kBlockingAndPassive

record ScrollStateData =
  delta_x :: real
  delta_y :: real
  position_x :: int
  position_y :: int
  velocity_x :: real
  velocity_y :: real
  is_beginning :: bool
  is_in_inertial_phase :: bool
  is_ending :: bool

definition ScrollStateData_default :: ScrollStateData where
  "ScrollStateData_default =
     \<lparr>delta_x = 0, delta_y = 0, position_x = 0, position_y = 0, velocity_x = 0,
      velocity_y = 0, is_beginning = False, is_in_inertial_phase = False, is_ending = False\<rparr>"

record InputHandlerScrollResult =
  did_scroll :: bool
  did_overscroll_root :: bool
  accumulated_root_overscroll :: "real \<times> real"
  unused_scroll_delta :: "real \<times> real"

definition InputHandlerScrollResult_default :: InputHandlerScrollResult where
  "InputHandlerScrollResult_default =
     \<lparr>did_scroll = False, did_overscroll_root = False,
      accumulated_root_overscroll = (0, 0), unused_scroll_delta = (0, 0)\<rparr>"

record DidOverscrollParams =
  accumulated_overscroll :: "real \<times> real"
  latest_overscroll_delta :: "real \<times> real"
  current_fling_velocity :: "real \<times> real"
  causal_event_viewport_point :: "int \<times> int"

text \<open>
  A value of type \<^verbatim>\<open>double\<close> as a function of \<^verbatim>\<open>svm.h\<close> may return it.
\<close>

datatype double = Finite real | PlusInfinity | MinusInfinity | NaN

text \<open>The calls made on the collaborators, with their arguments.\<close>

datatype call =
    Call_Sleep int
  | Call_Sleep_undefined
  | Call_ScrollBegin ScrollStateData ScrollInputType
  | Call_RootScrollBegin ScrollStateData ScrollInputType
  | Call_ScrollAnimatedBegin "int \<times> int"
  | Call_ScrollAnimated "int \<times> int" "real \<times> real"
  | Call_ScrollBy ScrollStateData
  | Call_ScrollEnd ScrollStateData
  | Call_PinchGestureBegin
  | Call_PinchGestureUpdate real "int \<times> int"
  | Call_PinchGestureEnd
  | Call_MouseDown
  | Call_MouseUp
  | Call_MouseMoveAt "int \<times> int"
  | Call_MouseLeave
  | Call_DidStopFlinging
  | Call_DidOverscroll DidOverscrollParams
  | Call_PostTask_ObserveGestureEventAndResult WebInputEvent InputHandlerScrollResult

text \<open>
  \<open>Call_Sleep us\<close> is a sleep of \<open>us\<close> microseconds. \<open>Call_Sleep_undefined\<close> is the call
  \<^verbatim>\<open>Sleep(FromMicroseconds(v))\<close> for a \<open>v\<close> that is NaN or infinite: the conversion of
  such a \<open>v\<close> to \<^verbatim>\<open>int64_t\<close> is undefined in C++ (x86-64 yields the least \<^verbatim>\<open>int64_t\<close>).
\<close>

text \<open>
  What the collaborators answer. \<open>svm_load_model\<close> and \<open>svm_predict\<close> are the two functions
  of \<^verbatim>\<open>svm.h\<close> that \<^verbatim>\<open>predict\<close> calls: the loader gets the text of the model and returns a
  model or null (\<open>None\<close>), the predictor gets a model and the feature vector, a list of
  (index, value) nodes, and returns a \<^verbatim>\<open>double\<close>. \<open>'m\<close> is the type of loaded models.
  Three fields are the machine's: \<open>round_to_double\<close> rounds a real result to binary64,
  \<open>out_of_range_int\<close> is what the conversion of a \<^verbatim>\<open>double\<close> to \<^verbatim>\<open>int\<close> yields where C++
  leaves it undefined, and \<open>scrollBegin_of_data\<close> gives the members \<^verbatim>\<open>deltaHintUnits\<close>,
  \<^verbatim>\<open>targetViewport\<close> and \<^verbatim>\<open>inertialPhase\<close> of \<^verbatim>\<open>data.scrollBegin\<close> as they are read from an
  event whose \<^verbatim>\<open>data\<close> was written through another member of the union. The other
  fields are the methods of \<^verbatim>\<open>cc::InputHandler\<close> whose results the proxy reads.
\<close>

record 'm env =
  svm_load_model :: "string \<Rightarrow> 'm option"
  svm_predict :: "'m \<Rightarrow> (int \<times> real) list \<Rightarrow> double"
  round_to_double :: "real \<Rightarrow> real"
  out_of_range_int :: "real \<Rightarrow> int32"
  scrollBegin_of_data :: "WebInputEvent \<Rightarrow> ScrollUnits \<times> bool \<times> InertialPhaseState"
  GetEventListenerProperties :: "EventListenerClass \<Rightarrow> EventListenerProperties"
  ScrollBegin :: "ScrollStateData \<Rightarrow> ScrollInputType \<Rightarrow> ScrollThread"
  RootScrollBegin :: "ScrollStateData \<Rightarrow> ScrollInputType \<Rightarrow> ScrollThread"
  ScrollAnimatedBegin :: "int \<times> int \<Rightarrow> ScrollThread"
  ScrollAnimated :: "int \<times> int \<Rightarrow> real \<times> real \<Rightarrow> ScrollThread"
  ScrollBy :: "ScrollStateData \<Rightarrow> InputHandlerScrollResult"
  DoTouchEventsBlockScrollAt :: "int \<times> int \<Rightarrow> bool"

subsection \<open>The state: file-scope variables and members of the proxy\<close>

record state =
  \<comment> \<open>file-scope variables, lines 68 to 94\<close>
  start_point_x :: real
  start_point_y :: real
  start_point_x_' :: real
  start_point_y_' :: real
  accumulated_delta_x :: real
  accumulated_delta_y :: real
  accumulated_delta_x_' :: real
  accumulated_delta_y_' :: real
  pinchCount :: int32
  scrollCount :: int32
  fps :: int32
  isPinch :: bool
  \<comment> \<open>file-scope variables, lines 309 to 313 and 991 to 992\<close>
  msg_model :: string
  routing_id_' :: int32
  scrollSpeed :: int32
  countScrolling :: int32
  countPinching :: int32
  count :: int32
  last_fps :: int32
  \<comment> \<open>members of \<^verbatim>\<open>InputHandlerProxy\<close>\<close>
  fling_curve_' :: bool \<comment> \<open>whether the pointer is non-null\<close>
  fling_parameters_sourceDevice :: WebGestureDevice
  current_fling_velocity_' :: "real \<times> real"
  deferred_fling_cancel_time_seconds_' :: real
  last_fling_boost_event_' :: WebInputEvent
  gesture_scroll_on_impl_thread_' :: bool
  gesture_pinch_on_impl_thread_' :: bool
  fling_may_be_active_on_main_thread_' :: bool
  disallow_horizontal_fling_scroll_' :: bool
  disallow_vertical_fling_scroll_' :: bool
  has_fling_animation_started_' :: bool
  smooth_scroll_enabled_' :: bool
  scroll_elasticity_controller_' :: bool \<comment> \<open>whether the pointer is non-null\<close>
  touch_start_result_' :: "EventDisposition option" \<comment> \<open>\<open>None\<close> is \<^verbatim>\<open>kEventDispositionUndefined\<close>\<close>
  current_overscroll_params_' :: "DidOverscrollParams option"
  \<comment> \<open>the calls made so far, oldest first\<close>
  calls :: "call list"

datatype 'a outcome = ProcessExit int | Returned 'a

text \<open>
  The variables as their initialisers and the constructor leave them; whether there is a
  scroll elasticity controller is the constructor's parameter.
\<close>

definition initial_state :: "bool \<Rightarrow> state" where
  "initial_state elasticity =
     \<lparr>start_point_x = 0, start_point_y = 0, start_point_x_' = 0, start_point_y_' = 0,
      accumulated_delta_x = 0, accumulated_delta_y = 0,
      accumulated_delta_x_' = 0, accumulated_delta_y_' = 0,
      pinchCount = 0, scrollCount = 0, fps = 0, isPinch = False,
      msg_model = [], routing_id_' = 0, scrollSpeed = 0,
      countScrolling = 0, countPinching = 0, count = 0, last_fps = 0,
      fling_curve_' = False, fling_parameters_sourceDevice = WebGestureDeviceUninitialized,
      current_fling_velocity_' = (0, 0), deferred_fling_cancel_time_seconds_' = 0,
      last_fling_boost_event_' = WebGestureEvent_default,
      gesture_scroll_on_impl_thread_' = False, gesture_pinch_on_impl_thread_' = False,
      fling_may_be_active_on_main_thread_' = False,
      disallow_horizontal_fling_scroll_' = False, disallow_vertical_fling_scroll_' = False,
      has_fling_animation_started_' = False, smooth_scroll_enabled_' = False,
      scroll_elasticity_controller_' = elasticity, touch_start_result_' = None,
      current_overscroll_params_' = None, calls = []\<rparr>"

subsection \<open>Conversions\<close>

text \<open>
  Arithmetic on \<^verbatim>\<open>double\<close>: a literal, a sum and a product are the exact value rounded
  to binary64.
\<close>

definition double_literal :: "'m env \<Rightarrow> real \<Rightarrow> real" where
  "double_literal e v = round_to_double e v"

definition double_add :: "'m env \<Rightarrow> real \<Rightarrow> real \<Rightarrow> real" where
  "double_add e a b = round_to_double e (a + b)"

definition double_mul :: "'m env \<Rightarrow> real \<Rightarrow> real \<Rightarrow> real" where
  "double_mul e a b = round_to_double e (a * b)"

text \<open>
  A \<^verbatim>\<open>double\<close> converted to an integer type is truncated towards zero. Where the
  truncated value does not fit the target type, the conversion is undefined in C++.
\<close>

definition trunc_toward_zero :: "real \<Rightarrow> int" where
  "trunc_toward_zero v = (if 0 \<le> v then \<lfloor>v\<rfloor> else \<lceil>v\<rceil>)"

definition double_to_int :: "'m env \<Rightarrow> real \<Rightarrow> int32" where
  "double_to_int e v =
     (if - 2147483649 < v \<and> v < 2147483648 then word_of_int (trunc_toward_zero v)
      else out_of_range_int e v)"

text \<open>
  The comparison \<^verbatim>\<open><\<close> and \<^verbatim>\<open>ceil\<close> on a \<^verbatim>\<open>double\<close> that need not be finite: a
  comparison with NaN is false, and \<^verbatim>\<open>ceil\<close> returns an infinity or NaN as it is.
\<close>

fun less_double :: "double \<Rightarrow> double \<Rightarrow> bool" where
  "less_double (Finite a) (Finite b) = (a < b)"
| "less_double (Finite a) PlusInfinity = True"
| "less_double MinusInfinity (Finite b) = True"
| "less_double MinusInfinity PlusInfinity = True"
| "less_double a b = False"

fun ceil_double :: "double \<Rightarrow> double" where
  "ceil_double (Finite v) = Finite (real_of_int \<lceil>v\<rceil>)"
| "ceil_double v = v"

text \<open>
  \<^verbatim>\<open>base::TimeDelta::FromMicroseconds(int64_t us)\<close> called with a \<^verbatim>\<open>double\<close>: the argument
  is converted to \<^verbatim>\<open>int64_t\<close>. A time delta is its number of microseconds.
\<close>

definition FromMicroseconds :: "real \<Rightarrow> int" where
  "FromMicroseconds us = trunc_toward_zero us"

text \<open>\<^verbatim>\<open>std::string::data()\<close> read as a C string: the characters before the first NUL.\<close>

definition data :: "string \<Rightarrow> string" where
  "data str = takeWhile (\<lambda>c. c \<noteq> CHR 0x00) str"

text \<open>\<^verbatim>\<open>scrollSpeed / 50\<close> on \<^verbatim>\<open>int\<close>.\<close>

definition int_div :: "int32 \<Rightarrow> int32 \<Rightarrow> int32" where
  "int_div a b = word_of_int (sint a sdiv sint b)"

subsection \<open>The model message (lines 353 to 360)\<close>

definition HandleInputModelMsg :: "string \<Rightarrow> int32 \<Rightarrow> int32 \<Rightarrow> state \<Rightarrow> state" where
  "HandleInputModelMsg msg routing_id speed s =
     (let s1 = s\<lparr>routing_id_' := routing_id\<rparr>;
          s2 = (if msg \<noteq> [] \<and> length msg \<noteq> 0 then s1\<lparr>msg_model := msg\<rparr> else s1);
          speed1 = (if speed = 0 then 200 else speed)
      in s2\<lparr>scrollSpeed := speed1\<rparr>)"

subsection \<open>The rate predictor (lines 936 to 988)\<close>

text \<open>
  \<^verbatim>\<open>predict_probability\<close> is the constant 0, so the branch that checks the probability
  model only logs. The feature vector is the node (1, speed) followed by the terminator.
\<close>

definition predict :: "'m env \<Rightarrow> state \<Rightarrow> real \<Rightarrow> double outcome" where
  "predict e s speed =
     (if msg_model s = [] \<or> length (msg_model s) = 0 \<or> msg_model s = ''stop''
      then Returned (Finite 60)
      else case svm_load_model e (data (msg_model s)) of
             None \<Rightarrow> ProcessExit 1
           | Some model \<Rightarrow> Returned (svm_predict e model [(1, speed)]))"

subsection \<open>Rounding, clamping and the delay table\<close>

text \<open>
  Lines 1027 to 1031 of the scroll update and 461 to 463 of the pinch update:
  \<^verbatim>\<open>fps = ceil(fps); if(fps<10){fps = 10;} if(fps>60){fps = 60;}\<close>
  In the pinch update the value is computed from an \<^verbatim>\<open>int\<close> and is finite:
\<close>

definition ceil_clamp :: "real \<Rightarrow> real" where
  "ceil_clamp predicted =
     (let fps0 = real_of_int \<lceil>predicted\<rceil>;
          fps1 = (if fps0 < 10 then 10 else fps0);
          fps2 = (if fps1 > 60 then 60 else fps1)
      in fps2)"

text \<open>In the scroll update it is what \<^verbatim>\<open>predict\<close> returned, which need not be finite:\<close>

definition ceil_clamp_double :: "double \<Rightarrow> double" where
  "ceil_clamp_double predicted =
     (let fps0 = ceil_double predicted;
          fps1 = (if less_double fps0 (Finite 10) then Finite 10 else fps0);
          fps2 = (if less_double (Finite 60) fps1 then Finite 60 else fps1)
      in fps2)"

text \<open>
  Lines 1042 to 1091 of the scroll update: the durations, in microseconds, of the calls
  of \<^verbatim>\<open>base::PlatformThread::Sleep\<close>, in order; \<open>rate\<close> is the local \<^verbatim>\<open>double fps\<close>.
  The first \<^verbatim>\<open>if\<close> stands alone, the rest is one \<^verbatim>\<open>else if\<close> chain; at 60 the scroll
  update does not call \<^verbatim>\<open>Sleep\<close>.
\<close>

definition scroll_update_sleeps :: "real \<Rightarrow> int list" where
  "scroll_update_sleeps rate =
     (if rate \<ge> 1 \<and> rate \<le> 9 then [FromMicroseconds (1000000 / rate - 16667)] else []) @
     (if rate \<ge> 10 \<and> rate \<le> 15 then
        [FromMicroseconds (1000000 / rate - 16667 + (rate - 10) * 1667 * 0.75)]
      else if rate > 15 \<and> rate < 20 then
        [FromMicroseconds (1000000 / rate - 16667 + (rate - 10) * 1667 * 0.6)]
      else if rate \<ge> 20 \<and> rate \<le> 30 then
        [FromMicroseconds (24997 + 1667 * (30 - rate))]
      else if rate > 30 \<and> rate \<le> 41 then
        [FromMicroseconds (16663 + 1667 * (41 - rate) * 0.5)]
      else if rate > 41 \<and> rate \<le> 44 then
        [FromMicroseconds (16246 + 1667 * (44 - rate) * 0.5)]
      else if rate = 45 then [FromMicroseconds 15412]
      else if rate > 45 \<and> rate \<le> 52 then
        [FromMicroseconds (11245 + 1667 * (52 - rate) * 0.5)]
      else if rate = 55 then [FromMicroseconds 12912]
      else if rate = 60 then []
      else [FromMicroseconds (12912 + 1667 * (55 - rate) * 0.5)])"

text \<open>Lines 467 to 516 of the pinch update: the same chain, but at 60 it calls \<^verbatim>\<open>Sleep(0)\<close>.\<close>

definition pinch_update_sleeps :: "real \<Rightarrow> int list" where
  "pinch_update_sleeps rate =
     (if rate \<ge> 1 \<and> rate \<le> 9 then [FromMicroseconds (1000000 / rate - 16667)] else []) @
     (if rate \<ge> 10 \<and> rate \<le> 15 then
        [FromMicroseconds (1000000 / rate - 16667 + (rate - 10) * 1667 * 0.75)]
      else if rate > 15 \<and> rate < 20 then
        [FromMicroseconds (1000000 / rate - 16667 + (rate - 10) * 1667 * 0.6)]
      else if rate \<ge> 20 \<and> rate \<le> 30 then
        [FromMicroseconds (24997 + 1667 * (30 - rate))]
      else if rate > 30 \<and> rate \<le> 41 then
        [FromMicroseconds (16663 + 1667 * (41 - rate) * 0.5)]
      else if rate > 41 \<and> rate \<le> 44 then
        [FromMicroseconds (16246 + 1667 * (44 - rate) * 0.5)]
      else if rate = 45 then [FromMicroseconds 15412]
      else if rate > 45 \<and> rate \<le> 52 then
        [FromMicroseconds (11245 + 1667 * (52 - rate) * 0.5)]
      else if rate = 55 then [FromMicroseconds 12912]
      else if rate = 60 then [FromMicroseconds 0]
      else [FromMicroseconds (12912 + 1667 * (55 - rate) * 0.5)])"

text \<open>
  The calls of \<^verbatim>\<open>Sleep\<close> of the scroll update at a rate that need not be finite. For NaN
  and for an infinity every condition of the chain is false, the equalities too, so the
  last \<^verbatim>\<open>else\<close> runs, and its argument \<^verbatim>\<open>12912+1667*(55-fps)*0.5\<close> is NaN or infinite.
\<close>

definition scroll_update_sleep_calls :: "double \<Rightarrow> call list" where
  "scroll_update_sleep_calls rate =
     (case rate of
        Finite r \<Rightarrow> map Call_Sleep (scroll_update_sleeps r)
      | PlusInfinity \<Rightarrow> [Call_Sleep_undefined]
      | MinusInfinity \<Rightarrow> [Call_Sleep_undefined]
      | NaN \<Rightarrow> [Call_Sleep_undefined])"

text \<open>The time a scroll update blocks its thread at a rate: the sum of its sleeps.\<close>

definition scroll_update_delay :: "real \<Rightarrow> int" where
  "scroll_update_delay rate = sum_list (scroll_update_sleeps rate)"

definition pinch_update_delay :: "real \<Rightarrow> int" where
  "pinch_update_delay rate = sum_list (pinch_update_sleeps rate)"

subsection \<open>Helpers of the handlers\<close>

text \<open>
  \<^verbatim>\<open>ObtainGestureScrollBegin\<close> copies the event and writes the type and the two hints. When
  the event was not a scroll begin, the other members of \<^verbatim>\<open>data.scrollBegin\<close> of the copy
  are what the bytes of the event's own member of the union read as.
\<close>

definition ObtainGestureScrollBegin :: "'m env \<Rightarrow> WebInputEvent \<Rightarrow> WebInputEvent" where
  "ObtainGestureScrollBegin e event =
     (let scroll_begin_event =
            (if type event = GestureScrollBegin then event
             else event\<lparr>scrollBegin_deltaHintUnits := fst (scrollBegin_of_data e event),
                        scrollBegin_targetViewport := fst (snd (scrollBegin_of_data e event)),
                        scrollBegin_inertialPhase := snd (snd (scrollBegin_of_data e event))\<rparr>)
      in scroll_begin_event
           \<lparr>type := GestureScrollBegin, scrollBegin_deltaXHint := 0,
            scrollBegin_deltaYHint := 0\<rparr>)"

definition CreateScrollStateForGesture :: "WebInputEvent \<Rightarrow> ScrollStateData" where
  "CreateScrollStateForGesture event =
     (let scroll_state_data = ScrollStateData_default in
      if type event = GestureScrollBegin then
        scroll_state_data
          \<lparr>position_x := x event, position_y := y event, is_beginning := True,
           is_in_inertial_phase := (scrollBegin_inertialPhase event = MomentumPhase)\<rparr>
      else if type event = GestureFlingStart then
        scroll_state_data
          \<lparr>velocity_x := flingStart_velocityX event, velocity_y := flingStart_velocityY event,
           is_in_inertial_phase := True\<rparr>
      else if type event = GestureScrollUpdate then
        scroll_state_data
          \<lparr>delta_x := - scrollUpdate_deltaX event, delta_y := - scrollUpdate_deltaY event,
           velocity_x := scrollUpdate_velocityX event, velocity_y := scrollUpdate_velocityY event,
           is_in_inertial_phase := (scrollUpdate_inertialPhase event = MomentumPhase)\<rparr>
      else if type event = GestureScrollEnd \<or> type event = GestureFlingCancel then
        scroll_state_data\<lparr>is_ending := True\<rparr>
      else scroll_state_data)"

definition GestureScrollInputType :: "WebGestureDevice \<Rightarrow> ScrollInputType" where
  "GestureScrollInputType device =
     (if device = WebGestureDeviceTouchpad then WHEEL else TOUCHSCREEN)"

definition ToClientScrollIncrement :: "real \<times> real \<Rightarrow> real \<times> real" where
  "ToClientScrollIncrement increment = (- fst increment, - snd increment)"

definition ShouldAnimate :: "state \<Rightarrow> bool \<Rightarrow> bool" where
  "ShouldAnimate s has_precise_scroll_deltas =
     (smooth_scroll_enabled_' s \<and> \<not> has_precise_scroll_deltas)"

definition do_call :: "call \<Rightarrow> state \<Rightarrow> state" where
  "do_call c s = s\<lparr>calls := calls s @ [c]\<rparr>"

definition HandleOverscroll ::
  "int \<times> int \<Rightarrow> InputHandlerScrollResult \<Rightarrow> bool \<Rightarrow> state \<Rightarrow> state" where
  "HandleOverscroll point scroll_result bundle_overscroll_params_with_ack s =
     (if \<not> did_overscroll_root scroll_result then s
      else
        let s1 = (if fling_curve_' s then
                    s\<lparr>disallow_horizontal_fling_scroll_' :=
                        (disallow_horizontal_fling_scroll_' s \<or>
                         \<bar>fst (accumulated_root_overscroll scroll_result)\<bar> \<ge> 1),
                      disallow_vertical_fling_scroll_' :=
                        (disallow_vertical_fling_scroll_' s \<or>
                         \<bar>snd (accumulated_root_overscroll scroll_result)\<bar> \<ge> 1)\<rparr>
                  else s);
            params = \<lparr>accumulated_overscroll = accumulated_root_overscroll scroll_result,
                      latest_overscroll_delta = unused_scroll_delta scroll_result,
                      current_fling_velocity =
                        ToClientScrollIncrement (current_fling_velocity_' s1),
                      causal_event_viewport_point = point\<rparr>
        in if bundle_overscroll_params_with_ack
           then s1\<lparr>current_overscroll_params_' := Some params\<rparr>
           else do_call (Call_DidOverscroll params) s1)"

definition HandleScrollElasticityOverscroll ::
  "WebInputEvent \<Rightarrow> InputHandlerScrollResult \<Rightarrow> state \<Rightarrow> state" where
  "HandleScrollElasticityOverscroll gesture_event scroll_result s =
     do_call (Call_PostTask_ObserveGestureEventAndResult gesture_event scroll_result) s"

text \<open>
  \<^verbatim>\<open>FilterInputEventForFlingBoosting\<close> (lines 1470 to 1614): its first statement is
  \<^verbatim>\<open>return false;\<close>, so nothing of the boosting logic below it is ever executed.
\<close>

definition FilterInputEventForFlingBoosting :: "WebInputEvent \<Rightarrow> state \<Rightarrow> bool \<times> state" where
  "FilterInputEventForFlingBoosting event s = (False, s)"

subsection \<open>Handlers that do not cancel a fling\<close>

text \<open>\<^verbatim>\<open>HandleGestureScrollUpdate\<close>, lines 993 to 1197.\<close>

definition HandleGestureScrollUpdate ::
  "'m env \<Rightarrow> WebInputEvent \<Rightarrow> state \<Rightarrow> (EventDisposition \<times> state) outcome" where
  "HandleGestureScrollUpdate e gesture_event s =
     (let s1 = s\<lparr>scrollSpeed := int_div (scrollSpeed s) 50\<rparr> in
      case predict e s1 (real_of_int (sint (scrollSpeed s1))) of
        ProcessExit code \<Rightarrow> ProcessExit code
      | Returned predicted \<Rightarrow>
          let rate = ceil_clamp_double predicted;
              s2 = s1\<lparr>countScrolling := countScrolling s1 + 1\<rparr>;
              s3 = s2\<lparr>calls := calls s2 @ scroll_update_sleep_calls rate\<rparr>
          in if \<not> gesture_scroll_on_impl_thread_' s3 \<and> \<not> gesture_pinch_on_impl_thread_' s3
             then Returned (DID_NOT_HANDLE, s3)
             else
               let scroll_state = CreateScrollStateForGesture gesture_event;
                   scroll_point = (x gesture_event, y gesture_event);
                   scroll_delta = (- scrollUpdate_deltaX gesture_event,
                                   - scrollUpdate_deltaY gesture_event);
                   s4 = s3\<lparr>start_point_x_' :=
                             (if start_point_x_' s3 = 0 then real_of_int (x gesture_event)
                              else start_point_x_' s3)\<rparr>;
                   s5 = s4\<lparr>start_point_y_' :=
                             (if start_point_y_' s4 = 0 then real_of_int (y gesture_event)
                              else start_point_y_' s4)\<rparr>;
                   s6 = s5\<lparr>accumulated_delta_x_' :=
                             double_add e (accumulated_delta_x_' s5)
                               (scrollUpdate_deltaX gesture_event),
                           accumulated_delta_y_' :=
                             double_add e (accumulated_delta_y_' s5)
                               (scrollUpdate_deltaY gesture_event),
                           accumulated_delta_x :=
                             double_add e (accumulated_delta_x s5)
                               (scrollUpdate_deltaX gesture_event),
                           accumulated_delta_y :=
                             double_add e (accumulated_delta_y s5)
                               (scrollUpdate_deltaY gesture_event)\<rparr>
               in if ShouldAnimate s6 (scrollUpdate_deltaUnits gesture_event \<noteq> Pixels) then
                    let s7 = do_call (Call_ScrollAnimated scroll_point scroll_delta) s6 in
                    (case ScrollAnimated e scroll_point scroll_delta of
                       SCROLL_ON_IMPL_THREAD \<Rightarrow> Returned (DID_HANDLE, s7)
                     | SCROLL_IGNORED \<Rightarrow> Returned (DROP_EVENT, s7)
                     | _ \<Rightarrow> Returned (DID_NOT_HANDLE, s7))
                  else
                    let scroll_result = ScrollBy e scroll_state;
                        s7 = do_call (Call_ScrollBy scroll_state) s6;
                        s8 = HandleOverscroll scroll_point scroll_result True s7;
                        s9 = (if scroll_elasticity_controller_' s8
                              then HandleScrollElasticityOverscroll gesture_event scroll_result s8
                              else s8);
                        s10 = s9\<lparr>start_point_x_' := 0, start_point_y_' := 0,
                                 accumulated_delta_x_' := 0, accumulated_delta_y_' := 0\<rparr>
                    in Returned (if did_scroll scroll_result then DID_HANDLE else DROP_EVENT,
                                 s10))"

text \<open>\<^verbatim>\<open>HandleGestureScrollEnd\<close>, lines 1230 to 1290.\<close>

definition HandleGestureScrollEnd :: "WebInputEvent \<Rightarrow> state \<Rightarrow> EventDisposition \<times> state" where
  "HandleGestureScrollEnd gesture_event s =
     (let s1 = s\<lparr>count := 0, last_fps := 0\<rparr>;
          s2 = (if ShouldAnimate s1 (scrollEnd_deltaUnits gesture_event \<noteq> Pixels) then s1
                else
                  let scroll_state = CreateScrollStateForGesture gesture_event;
                      s1a = s1\<lparr>start_point_x_' := 0, start_point_y_' := 0,
                               accumulated_delta_x_' := 0, accumulated_delta_y_' := 0\<rparr>
                  in do_call (Call_ScrollEnd (scroll_state\<lparr>is_ending := True\<rparr>)) s1a)
      in if \<not> gesture_scroll_on_impl_thread_' s2 then (DID_NOT_HANDLE, s2)
         else
           let s3 = (if scroll_elasticity_controller_' s2
                     then HandleScrollElasticityOverscroll gesture_event
                            InputHandlerScrollResult_default s2
                     else s2)
           in (DID_HANDLE, s3\<lparr>gesture_scroll_on_impl_thread_' := False\<rparr>))"

text \<open>The cases of the pinch gestures in \<^verbatim>\<open>HandleInputEvent\<close>, lines 416 to 542.\<close>

definition HandleInputEvent_GesturePinchBegin ::
  "'m env \<Rightarrow> WebInputEvent \<Rightarrow> state \<Rightarrow> EventDisposition \<times> state" where
  "HandleInputEvent_GesturePinchBegin e event s =
     (let s1 = s\<lparr>isPinch := True\<rparr> in
      if sourceDevice event = WebGestureDeviceTouchpad \<and>
         GetEventListenerProperties e kMouseWheel \<noteq> kNone
      then (DID_NOT_HANDLE, s1)
      else (DID_HANDLE,
            (do_call Call_PinchGestureBegin s1)\<lparr>gesture_pinch_on_impl_thread_' := True\<rparr>))"

definition HandleInputEvent_GesturePinchEnd :: "state \<Rightarrow> EventDisposition \<times> state" where
  "HandleInputEvent_GesturePinchEnd s =
     (let s1 = s\<lparr>isPinch := False\<rparr> in
      if gesture_pinch_on_impl_thread_' s1
      then (DID_HANDLE,
            do_call Call_PinchGestureEnd
              (s1\<lparr>gesture_pinch_on_impl_thread_' := False, pinchCount := 0\<rparr>))
      else (DID_NOT_HANDLE, s1))"

definition HandleInputEvent_GesturePinchUpdate ::
  "'m env \<Rightarrow> WebInputEvent \<Rightarrow> state \<Rightarrow> EventDisposition \<times> state" where
  "HandleInputEvent_GesturePinchUpdate e event s =
     (if gesture_pinch_on_impl_thread_' s then
        let predicted =
              double_add e
                (double_mul e (double_literal e 0.0213) (real_of_int (sint (scrollSpeed s))))
                (double_literal e 15.6);
            s1 = s\<lparr>scrollSpeed := 0\<rparr>;
            rate = ceil_clamp predicted;
            s2 = s1\<lparr>countPinching := countPinching s1 + 1\<rparr>;
            s3 = s2\<lparr>calls := calls s2 @ map Call_Sleep (pinch_update_sleeps rate)\<rparr>;
            s4 = s3\<lparr>pinchCount := pinchCount s3 + 1\<rparr>
        in if pinchUpdate_zoomDisabled event then (DROP_EVENT, s4)
           else (DID_HANDLE,
                 do_call (Call_PinchGestureUpdate (pinchUpdate_scale event) (x event, y event)) s4)
      else (DID_NOT_HANDLE, s))"

text \<open>The touch handlers, lines 1392 to 1468. The loop of \<^verbatim>\<open>HandleTouchStart\<close>:\<close>

fun touches_block_scroll :: "'m env \<Rightarrow> WebTouchPoint list \<Rightarrow> bool" where
  "touches_block_scroll e [] = False"
| "touches_block_scroll e (t # ts) =
     (if state t \<noteq> StatePressed then touches_block_scroll e ts
      else if DoTouchEventsBlockScrollAt e
                (trunc_toward_zero (fst (position t)), trunc_toward_zero (snd (position t)))
      then True
      else touches_block_scroll e ts)"

definition HandleTouchStart ::
  "'m env \<Rightarrow> WebInputEvent \<Rightarrow> state \<Rightarrow> EventDisposition \<times> state" where
  "HandleTouchStart e touch_event s =
     (let result0 = (if touches_block_scroll e (touches touch_event)
                     then DID_NOT_HANDLE else DROP_EVENT);
          result1 = (if result0 = DROP_EVENT then
                       (case GetEventListenerProperties e kTouchStartOrMove of
                          kPassive \<Rightarrow> DID_HANDLE_NON_BLOCKING
                        | kBlocking \<Rightarrow> DROP_EVENT
                        | kBlockingAndPassive \<Rightarrow> DID_HANDLE_NON_BLOCKING
                        | kNone \<Rightarrow> DROP_EVENT)
                     else result0);
          s1 = (if touch_start_result_' s = None \<or> touch_start_result_' s = Some DROP_EVENT \<or>
                   result1 = DID_NOT_HANDLE
                then s\<lparr>touch_start_result_' := Some result1\<rparr> else s);
          result2 = (if result1 = DROP_EVENT \<and>
                        GetEventListenerProperties e kTouchEndOrCancel \<noteq> kNone
                     then DID_HANDLE_NON_BLOCKING else result1)
      in (result2, s1))"

definition HandleTouchMove :: "WebInputEvent \<Rightarrow> state \<Rightarrow> EventDisposition \<times> state" where
  "HandleTouchMove touch_event s =
     (case touch_start_result_' s of
        Some d \<Rightarrow> (d, s)
      | None \<Rightarrow> (DID_NOT_HANDLE, s))"

definition HandleTouchEnd :: "WebInputEvent \<Rightarrow> state \<Rightarrow> EventDisposition \<times> state" where
  "HandleTouchEnd touch_event s =
     (if length (touches touch_event) = 1
      then (DID_NOT_HANDLE, s\<lparr>touch_start_result_' := None\<rparr>)
      else (DID_NOT_HANDLE, s))"

text \<open>
  \<^verbatim>\<open>HandleGestureScrollBegin\<close> from line 820 on: what the handler does once the event has
  passed the two sentinel checks and a fling, if the flag asked for it, has been
  cancelled.
\<close>

definition HandleGestureScrollBegin_after_cancel ::
  "'m env \<Rightarrow> WebInputEvent \<Rightarrow> state \<Rightarrow> EventDisposition \<times> state" where
  "HandleGestureScrollBegin_after_cancel e gesture_event s1 =
     (let s2 = s1\<lparr>start_point_x := real_of_int (x gesture_event),
                  start_point_y := real_of_int (y gesture_event)\<rparr>;
          scroll_state = CreateScrollStateForGesture gesture_event;
          input_type = GestureScrollInputType (sourceDevice gesture_event);
          scroll_point = (x gesture_event, y gesture_event);
          (scroll_status, s3) =
            (if scrollBegin_deltaHintUnits gesture_event = Page then
               (SCROLL_ON_MAIN_THREAD, s2)
             else if scrollBegin_targetViewport gesture_event then
               (RootScrollBegin e scroll_state input_type,
                do_call (Call_RootScrollBegin scroll_state input_type) s2)
             else if ShouldAnimate s2
                       (scrollBegin_deltaHintUnits gesture_event \<noteq> Pixels) then
               (ScrollAnimatedBegin e scroll_point,
                do_call (Call_ScrollAnimatedBegin scroll_point) s2)
             else
               (ScrollBegin e scroll_state input_type,
                do_call (Call_ScrollBegin scroll_state input_type) s2));
          (result, s4) =
            (case scroll_status of
               SCROLL_ON_IMPL_THREAD \<Rightarrow>
                 (DID_HANDLE, s3\<lparr>gesture_scroll_on_impl_thread_' := True\<rparr>)
             | SCROLL_UNKNOWN \<Rightarrow> (DID_NOT_HANDLE, s3)
             | SCROLL_ON_MAIN_THREAD \<Rightarrow> (DID_NOT_HANDLE, s3)
             | SCROLL_IGNORED \<Rightarrow> (DROP_EVENT, s3));
          s5 = (if scroll_elasticity_controller_' s4 \<and> result \<noteq> DID_NOT_HANDLE
                then HandleScrollElasticityOverscroll gesture_event
                       InputHandlerScrollResult_default s4
                else s4)
      in (result, s5))"

subsection \<open>Cancelling a fling, and the dispatch\<close>

text \<open>
  \<^verbatim>\<open>CancelCurrentFlingWithoutNotifyingClient\<close> (lines 1792 to 1830) calls
  \<^verbatim>\<open>HandleInputEvent\<close> with a synthesised scroll begin, and \<^verbatim>\<open>HandleInputEvent\<close> (lines 389
  to 619) reaches \<^verbatim>\<open>CancelCurrentFling\<close> (lines 1783 to 1790) directly and through
  \<^verbatim>\<open>HandleMouseWheel\<close> (lines 686 to 708) and \<^verbatim>\<open>HandleGestureScrollBegin\<close> (lines 794 to 819):
  the five are one recursion. \<^verbatim>\<open>GestureFlingStart\<close> has no \<^verbatim>\<open>return\<close> of its own (the call of
  \<^verbatim>\<open>HandleGestureFlingStart\<close> is commented out) and falls through to \<^verbatim>\<open>GestureFlingCancel\<close>.
\<close>

function
  CancelCurrentFlingWithoutNotifyingClient :: "'m env \<Rightarrow> state \<Rightarrow> (bool \<times> state) outcome"
and
  CancelCurrentFling :: "'m env \<Rightarrow> state \<Rightarrow> (bool \<times> state) outcome"
and
  HandleMouseWheel ::
    "'m env \<Rightarrow> WebInputEvent \<Rightarrow> state \<Rightarrow> (EventDisposition \<times> state) outcome"
and
  HandleGestureScrollBegin ::
    "'m env \<Rightarrow> WebInputEvent \<Rightarrow> state \<Rightarrow> (EventDisposition \<times> state) outcome"
and
  HandleInputEvent ::
    "'m env \<Rightarrow> WebInputEvent \<Rightarrow> state \<Rightarrow> (EventDisposition \<times> state) outcome"
where
  "CancelCurrentFlingWithoutNotifyingClient e s =
     (let had_fling_animation = fling_curve_' s;
          s1 = (if had_fling_animation \<and>
                   fling_parameters_sourceDevice s = WebGestureDeviceTouchscreen
                then do_call (Call_ScrollEnd (ScrollStateData_default\<lparr>is_ending := True\<rparr>)) s
                else s);
          s2 = s1\<lparr>fling_curve_' := False, has_fling_animation_started_' := False,
                  gesture_scroll_on_impl_thread_' := False, current_fling_velocity_' := (0, 0),
                  fling_parameters_sourceDevice := WebGestureDeviceUninitialized\<rparr>
      in if deferred_fling_cancel_time_seconds_' s2 \<noteq> 0 then
           let s3 = s2\<lparr>deferred_fling_cancel_time_seconds_' := 0\<rparr>;
               last_fling_boost_event = last_fling_boost_event_' s3;
               s4 = s3\<lparr>last_fling_boost_event_' := WebGestureEvent_default\<rparr>
           in if type last_fling_boost_event = GestureScrollBegin \<or>
                 type last_fling_boost_event = GestureScrollUpdate
              then
                (case HandleInputEvent e (ObtainGestureScrollBegin e last_fling_boost_event) s4 of
                   ProcessExit code \<Rightarrow> ProcessExit code
                 | Returned (d, s5) \<Rightarrow> Returned (had_fling_animation, s5))
              else Returned (had_fling_animation, s4)
         else Returned (had_fling_animation, s2))"
| "CancelCurrentFling e s =
     (case CancelCurrentFlingWithoutNotifyingClient e s of
        ProcessExit code \<Rightarrow> ProcessExit code
      | Returned (cancelled, s1) \<Rightarrow>
          if cancelled then Returned (True, do_call Call_DidStopFlinging s1)
          else Returned (False, s1))"
| "HandleMouseWheel e wheel_event s =
     (case (if \<not> hasPreciseScrollingDeltas wheel_event \<and> fling_curve_' s
            then CancelCurrentFling e s else Returned (False, s)) of
        ProcessExit code \<Rightarrow> ProcessExit code
      | Returned (cancelled, s1) \<Rightarrow>
          (case GetEventListenerProperties e kMouseWheel of
             kPassive \<Rightarrow> Returned (DID_HANDLE_NON_BLOCKING, s1)
           | kBlockingAndPassive \<Rightarrow> Returned (DID_NOT_HANDLE, s1)
           | kBlocking \<Rightarrow> Returned (DID_NOT_HANDLE, s1)
           | kNone \<Rightarrow> Returned (DROP_EVENT, s1)))"
| "HandleGestureScrollBegin e gesture_event s =
     (if x gesture_event = - 1 \<and> y gesture_event = - 1 then
        Returned (DROP_EVENT,
                  s\<lparr>fps := double_to_int e
                             (double_mul e (timeStampSeconds gesture_event) 1000)\<rparr>)
      else if x gesture_event = 0 \<and> y gesture_event = 0 then
        Returned (DROP_EVENT,
                  s\<lparr>fps := double_to_int e
                             (double_mul e (timeStampSeconds gesture_event) 1000)\<rparr>)
      else
        (case (if gesture_scroll_on_impl_thread_' s
               then CancelCurrentFling e s else Returned (False, s)) of
           ProcessExit code \<Rightarrow> ProcessExit code
         | Returned (cancelled, s1) \<Rightarrow>
             Returned (HandleGestureScrollBegin_after_cancel e gesture_event s1)))"
| "HandleInputEvent e event s =
     (case FilterInputEventForFlingBoosting event s of
        (True, s0) \<Rightarrow> Returned (DID_HANDLE, s0)
      | (False, s0) \<Rightarrow>
         (if type event = MouseWheel then HandleMouseWheel e event s0
          else if type event = GestureScrollBegin then HandleGestureScrollBegin e event s0
          else if type event = GestureScrollUpdate then
            HandleGestureScrollUpdate e event (s0\<lparr>scrollCount := scrollCount s0 + 1\<rparr>)
          else if type event = GestureScrollEnd then Returned (HandleGestureScrollEnd event s0)
          else if type event = GesturePinchBegin then
            Returned (HandleInputEvent_GesturePinchBegin e event s0)
          else if type event = GesturePinchEnd then
            Returned (HandleInputEvent_GesturePinchEnd s0)
          else if type event = GesturePinchUpdate then
            Returned (HandleInputEvent_GesturePinchUpdate e event s0)
          else if type event = GestureFlingStart \<or> type event = GestureFlingCancel then
            (case CancelCurrentFling e s0 of
               ProcessExit code \<Rightarrow> ProcessExit code
             | Returned (cancelled, s1) \<Rightarrow>
                 if cancelled then Returned (DID_HANDLE, s1)
                 else if \<not> fling_may_be_active_on_main_thread_' s1
                 then Returned (DROP_EVENT, s1)
                 else Returned (DID_NOT_HANDLE, s1))
          else if type event = TouchStart then Returned (HandleTouchStart e event s0)
          else if type event = TouchMove then Returned (HandleTouchMove event s0)
          else if type event = TouchEnd then Returned (HandleTouchEnd event s0)
          else if type event = MouseDown then
            Returned (DID_NOT_HANDLE,
                      if button event = Button_Left then do_call Call_MouseDown s0 else s0)
          else if type event = MouseUp then
            Returned (DID_NOT_HANDLE,
                      if button event = Button_Left then do_call Call_MouseUp s0 else s0)
          else if type event = MouseMove then
            Returned (DID_NOT_HANDLE, do_call (Call_MouseMoveAt (x event, y event)) s0)
          else if type event = MouseLeave then
            Returned (DID_NOT_HANDLE, do_call Call_MouseLeave s0)
          else
            (case (if isKeyboardEventType (type event) \<and> fling_curve_' s0
                   then CancelCurrentFling e s0 else Returned (False, s0)) of
               ProcessExit code \<Rightarrow> ProcessExit code
             | Returned (cancelled, s1) \<Rightarrow> Returned (DID_NOT_HANDLE, s1))))"
  by pat_completeness auto

text \<open>
  The recursion ends: the only call back into \<^verbatim>\<open>HandleInputEvent\<close> is made after
  \<^verbatim>\<open>deferred_fling_cancel_time_seconds_\<close> was found non-zero and has been set to zero, and
  no function of the five sets it to a non-zero value.
\<close>

termination
  by (relation "measure (\<lambda>v. case v of
          Inl (Inl (e, s)) \<Rightarrow>
            (if deferred_fling_cancel_time_seconds_' s \<noteq> 0 then 5 else 0) + (1::nat)
        | Inl (Inr (e, s)) \<Rightarrow>
            (if deferred_fling_cancel_time_seconds_' s \<noteq> 0 then 5 else 0) + 2
        | Inr (Inl (e, ev, s)) \<Rightarrow>
            (if deferred_fling_cancel_time_seconds_' s \<noteq> 0 then 5 else 0) + 3
        | Inr (Inr (Inl (e, ev, s))) \<Rightarrow>
            (if deferred_fling_cancel_time_seconds_' s \<noteq> 0 then 5 else 0) + 3
        | Inr (Inr (Inr (e, ev, s))) \<Rightarrow>
            (if deferred_fling_cancel_time_seconds_' s \<noteq> 0 then 5 else 0) + 4)")
     (auto simp: FilterInputEventForFlingBoosting_def do_call_def split: if_splits)

declare CancelCurrentFlingWithoutNotifyingClient.simps [simp del]
declare CancelCurrentFling.simps [simp del]
declare HandleMouseWheel.simps [simp del]
declare HandleGestureScrollBegin.simps [simp del]
declare HandleInputEvent.simps [simp del]

subsection \<open>A stream of events\<close>

text \<open>
  The caller hands the events of a stream to \<^verbatim>\<open>HandleInputEvent\<close> one after the other.
  Each event comes with the answers the collaborators give while it is handled. The
  dispositions are collected in order; the stream stops where the process exits.
\<close>

fun handle_events ::
  "('m env \<times> WebInputEvent) list \<Rightarrow> state \<Rightarrow> (EventDisposition list \<times> state) outcome" where
  "handle_events [] s = Returned ([], s)"
| "handle_events (p # rest) s =
     (case HandleInputEvent (fst p) (snd p) s of
        ProcessExit code \<Rightarrow> ProcessExit code
      | Returned (d, s1) \<Rightarrow>
          (case handle_events rest s1 of
             ProcessExit code \<Rightarrow> ProcessExit code
           | Returned (ds, s2) \<Rightarrow> Returned (d # ds, s2)))"

subsection \<open>Concrete collaborators and events for the examples\<close>

text \<open>
  A loader that accepts exactly the text \<open>''model''\<close>, a predictor that answers 30 for
  every input, an input handler that scrolls on the compositor thread and reports that
  it scrolled. Loaded models are natural numbers here. The results the examples round
  are doubles already, so the rounding of this environment leaves every value as it is.
\<close>

definition example_env :: "nat env" where
  "example_env =
     \<lparr>svm_load_model = (\<lambda>txt. if txt = ''model'' then Some 0 else None),
      svm_predict = (\<lambda>model nodes. Finite 30),
      round_to_double = (\<lambda>v. v),
      out_of_range_int = (\<lambda>v. 0),
      scrollBegin_of_data = (\<lambda>event. (PrecisePixels, False, UnknownMomentumPhase)),
      GetEventListenerProperties = (\<lambda>c. kNone),
      ScrollBegin = (\<lambda>st t. SCROLL_ON_IMPL_THREAD),
      RootScrollBegin = (\<lambda>st t. SCROLL_ON_IMPL_THREAD),
      ScrollAnimatedBegin = (\<lambda>pt. SCROLL_ON_IMPL_THREAD),
      ScrollAnimated = (\<lambda>pt d. SCROLL_ON_IMPL_THREAD),
      ScrollBy = (\<lambda>st. \<lparr>did_scroll = True, did_overscroll_root = False,
                          accumulated_root_overscroll = (0, 0),
                          unused_scroll_delta = (0, 0)\<rparr>),
      DoTouchEventsBlockScrollAt = (\<lambda>pt. False)\<rparr>"

text \<open>The same collaborators with a model whose prediction is NaN.\<close>

definition example_env_nan :: "nat env" where
  "example_env_nan = example_env\<lparr>svm_predict := (\<lambda>model nodes. NaN)\<rparr>"

definition example_gesture :: "WebInputEventType \<Rightarrow> int \<Rightarrow> int \<Rightarrow> WebInputEvent" where
  "example_gesture t px py =
     WebGestureEvent_default
       \<lparr>type := t, x := px, y := py, timeStampSeconds := 1,
        sourceDevice := WebGestureDeviceTouchscreen, scrollUpdate_deltaY := 3\<rparr>"

text \<open>The state a run ends in, when the process did not exit.\<close>

fun returned_state :: "('a \<times> state) outcome \<Rightarrow> state option" where
  "returned_state (Returned r) = Some (snd r)"
| "returned_state (ProcessExit code) = None"

text \<open>
  A stream on a fresh proxy: a scroll begin at (5, 7), \<open>n\<close> scroll updates that each move
  by 3 vertically, and a scroll end.
\<close>

definition example_stream :: "nat \<Rightarrow> (nat env \<times> WebInputEvent) list" where
  "example_stream n =
     (example_env, example_gesture GestureScrollBegin 5 7) #
     replicate n (example_env, example_gesture GestureScrollUpdate 5 7) @
     [(example_env, example_gesture GestureScrollEnd 5 7)]"

section \<open>Properties\<close>

subsection \<open>The predictor\<close>

text \<open>
  Claim C1. When the stored model text is empty or is the text \<open>''stop''\<close>, \<open>predict\<close>
  returns 60 for every speed, so its result does not depend on the speed.
\<close>

theorem predict_without_model:
  "msg_model s = [] \<or> msg_model s = ''stop'' \<Longrightarrow>
   predict e s speed = Returned (Finite 60) \<and> predict e s speed' = predict e s speed"
  by (auto simp: predict_def)

theorem predict_without_model_witness:
  "(msg_model ((initial_state False)\<lparr>msg_model := ''stop''\<rparr>) = [] \<or>
    msg_model ((initial_state False)\<lparr>msg_model := ''stop''\<rparr>) = ''stop'') \<and>
   predict example_env ((initial_state False)\<lparr>msg_model := ''stop''\<rparr>) 7 =
     Returned (Finite 60) \<and>
   predict example_env ((initial_state False)\<lparr>msg_model := ''stop''\<rparr>) 250 =
     predict example_env ((initial_state False)\<lparr>msg_model := ''stop''\<rparr>) 7"
  using predict_without_model
    [of "(initial_state False)\<lparr>msg_model := ''stop''\<rparr>" example_env 7 250]
  by simp

text \<open>
  Claim C9. When the stored model text is neither empty nor \<open>''stop''\<close> and the loader
  returns null for it, \<open>predict\<close> does not return a rate: the process exits with status 1.
\<close>

theorem predict_exits_on_malformed_model:
  "msg_model s \<noteq> [] \<Longrightarrow> msg_model s \<noteq> ''stop'' \<Longrightarrow>
   svm_load_model e (data (msg_model s)) = None \<Longrightarrow>
   predict e s speed = ProcessExit 1"
  by (simp add: predict_def)

theorem predict_exits_on_malformed_model_witness:
  "msg_model ((initial_state False)\<lparr>msg_model := ''garbage''\<rparr>) \<noteq> [] \<and>
   msg_model ((initial_state False)\<lparr>msg_model := ''garbage''\<rparr>) \<noteq> ''stop'' \<and>
   svm_load_model example_env
     (data (msg_model ((initial_state False)\<lparr>msg_model := ''garbage''\<rparr>))) = None \<and>
   predict example_env ((initial_state False)\<lparr>msg_model := ''garbage''\<rparr>) 4 = ProcessExit 1"
  using predict_exits_on_malformed_model
    [of "(initial_state False)\<lparr>msg_model := ''garbage''\<rparr>" example_env 4]
  by (simp add: example_env_def data_def)

subsection \<open>The model message\<close>

text \<open>
  Claim C8. \<open>HandleInputModelMsg\<close> stores a non-empty model text in place of the old one
  and keeps the old one when the text is empty; it stores 200 for the speed 0 and every
  other speed as given.
\<close>

theorem model_message_stores:
  "msg_model (HandleInputModelMsg msg routing_id speed s) =
     (if msg \<noteq> [] then msg else msg_model s) \<and>
   scrollSpeed (HandleInputModelMsg msg routing_id speed s) =
     (if speed = 0 then 200 else speed)"
  by (simp add: HandleInputModelMsg_def Let_def)

theorem model_message_stores_witness:
  "msg_model (HandleInputModelMsg ''model'' 7 0 (initial_state False)) = ''model'' \<and>
   scrollSpeed (HandleInputModelMsg ''model'' 7 0 (initial_state False)) = 200 \<and>
   msg_model (HandleInputModelMsg [] 7 120
                ((initial_state False)\<lparr>msg_model := ''model''\<rparr>)) = ''model'' \<and>
   scrollSpeed (HandleInputModelMsg [] 7 120
                  ((initial_state False)\<lparr>msg_model := ''model''\<rparr>)) = 120"
  using model_message_stores [of "''model''" 7 0 "initial_state False"]
    model_message_stores [of "[]" 7 120 "(initial_state False)\<lparr>msg_model := ''model''\<rparr>"]
  by simp

subsection \<open>The delay table\<close>

text \<open>
  Claim C5. At the rate 45 the update sleeps 15412 microseconds and at 55 it sleeps 12912
  microseconds, on the scroll and on the pinch path. At 60 the delay is 0: the scroll
  update does not call \<open>Sleep\<close> at all, the pinch update calls it with 0.
\<close>

theorem delay_at_named_rates:
  "scroll_update_sleeps 45 = [15412] \<and> scroll_update_delay 45 = 15412 \<and>
   scroll_update_sleeps 55 = [12912] \<and> scroll_update_delay 55 = 12912 \<and>
   scroll_update_sleeps 60 = [] \<and> scroll_update_delay 60 = 0 \<and>
   pinch_update_sleeps 45 = [15412] \<and> pinch_update_delay 45 = 15412 \<and>
   pinch_update_sleeps 55 = [12912] \<and> pinch_update_delay 55 = 12912 \<and>
   pinch_update_sleeps 60 = [0] \<and> pinch_update_delay 60 = 0"
  by (simp add: scroll_update_sleeps_def scroll_update_delay_def pinch_update_sleeps_def
      pinch_update_delay_def FromMicroseconds_def trunc_toward_zero_def)

lemmas delay_defs =
  scroll_update_sleeps_def scroll_update_delay_def FromMicroseconds_def trunc_toward_zero_def

lemma scroll_update_delay_steps:
  "\<forall>r\<in>set [10..59]. r \<noteq> 30 \<longrightarrow> r \<noteq> 41 \<longrightarrow> r \<noteq> 45 \<longrightarrow> r \<noteq> 52 \<longrightarrow>
     scroll_update_delay (real_of_int (r + 1)) \<le> scroll_update_delay (real_of_int r)"
  by (simp add: delay_defs)

lemma scroll_update_delay_step:
  assumes "10 \<le> r" "r < 60" "r \<noteq> 30" "r \<noteq> 41" "r \<noteq> 45" "r \<noteq> 52"
  shows "scroll_update_delay (real_of_int (r + 1)) \<le> scroll_update_delay (real_of_int r)"
proof -
  from assms have "r \<in> {10..59}" by simp
  then have "r \<in> set [10..59]" by (simp only: set_upto)
  with scroll_update_delay_steps assms(3-6) show ?thesis by blast
qed

text \<open>
  Claim C3, amended. The delay of the scroll update is not monotone over the whole range
  of rates from 10 to 60: it rises from 30 to 31, from 41 to 42, from 45 to 46 and from
  52 to 53. Between these four steps it is non-increasing: for integer rates
  \<open>r1 < r2\<close> that both lie in 10..30, or in 31..41, or in 42..45, or in 46..52, or in
  53..60, the delay at \<open>r1\<close> is at least the delay at \<open>r2\<close>.
\<close>

theorem scroll_delay_monotone_between_jumps:
  assumes "r1 < r2" and "10 \<le> r1" and "r2 \<le> 60"
    and "\<not> (r1 \<le> 30 \<and> 30 < r2)" and "\<not> (r1 \<le> 41 \<and> 41 < r2)"
    and "\<not> (r1 \<le> 45 \<and> 45 < r2)" and "\<not> (r1 \<le> 52 \<and> 52 < r2)"
  shows "scroll_update_delay (real_of_int r2) \<le> scroll_update_delay (real_of_int r1)"
  using assms
proof (induction r2 rule: int_gr_induct)
  case base
  then show ?case using scroll_update_delay_step [of r1] by auto
next
  case (step i)
  have "scroll_update_delay (real_of_int (i + 1)) \<le> scroll_update_delay (real_of_int i)"
    using step.prems step.hyps by (intro scroll_update_delay_step) auto
  moreover have "scroll_update_delay (real_of_int i) \<le> scroll_update_delay (real_of_int r1)"
    using step.prems step.hyps by (intro step.IH) auto
  ultimately show ?case by linarith
qed

theorem scroll_delay_monotone_between_jumps_witness:
  "(31::int) < 41 \<and> (10::int) \<le> 31 \<and> (41::int) \<le> 60 \<and>
   scroll_update_delay 41 \<le> scroll_update_delay 31"
  using scroll_delay_monotone_between_jumps [of 31 41]
  by simp

text \<open>
  The claim as it was stated fails at the rates 30 and 31, both in the clamped range:
  the delay at 30 is 24997 microseconds, the delay at 31 is 24998. It fails again at 41
  and 42, at 45 and 46 and at 52 and 53.
\<close>

theorem scroll_delay_rises:
  "(30::int) < 31 \<and> scroll_update_delay (real_of_int 30) = 24997 \<and>
   scroll_update_delay (real_of_int 31) = 24998 \<and>
   \<not> scroll_update_delay (real_of_int 31) \<le> scroll_update_delay (real_of_int 30) \<and>
   scroll_update_delay 41 < scroll_update_delay 42 \<and>
   scroll_update_delay 45 < scroll_update_delay 46 \<and>
   scroll_update_delay 52 < scroll_update_delay 53"
  by (simp add: delay_defs)

subsection \<open>Rounding and clamping\<close>

lemma ceil_clamp_eq:
  "ceil_clamp p = (if p < 10 then 10 else if p > 60 then 60 else real_of_int \<lceil>p\<rceil>)"
  unfolding ceil_clamp_def Let_def
  by (auto simp: not_less not_le) linarith+

lemma ceil_clamp_range: "10 \<le> ceil_clamp p \<and> ceil_clamp p \<le> 60"
  unfolding ceil_clamp_def Let_def by auto

lemma ceil_clamp_double_Finite: "ceil_clamp_double (Finite p) = Finite (ceil_clamp p)"
  by (simp add: ceil_clamp_double_def ceil_clamp_def Let_def)

lemma ceil_clamp_double_not_finite:
  "ceil_clamp_double PlusInfinity = Finite 60"
  "ceil_clamp_double MinusInfinity = Finite 10"
  "ceil_clamp_double NaN = NaN"
  by (simp_all add: ceil_clamp_double_def Let_def)

lemma do_call_fields [simp]:
  "calls (do_call c s) = calls s @ [c]"
  "msg_model (do_call c s) = msg_model s"
  "smooth_scroll_enabled_' (do_call c s) = smooth_scroll_enabled_' s"
  "scroll_elasticity_controller_' (do_call c s) = scroll_elasticity_controller_' s"
  "fling_may_be_active_on_main_thread_' (do_call c s) = fling_may_be_active_on_main_thread_' s"
  "fling_curve_' (do_call c s) = fling_curve_' s"
  "gesture_scroll_on_impl_thread_' (do_call c s) = gesture_scroll_on_impl_thread_' s"
  "gesture_pinch_on_impl_thread_' (do_call c s) = gesture_pinch_on_impl_thread_' s"
  "start_point_x (do_call c s) = start_point_x s"
  "start_point_y (do_call c s) = start_point_y s"
  "accumulated_delta_x (do_call c s) = accumulated_delta_x s"
  "accumulated_delta_y (do_call c s) = accumulated_delta_y s"
  by (simp_all add: do_call_def)

lemma HandleScrollElasticityOverscroll_fields [simp]:
  "calls (HandleScrollElasticityOverscroll ev r s) =
     calls s @ [Call_PostTask_ObserveGestureEventAndResult ev r]"
  "msg_model (HandleScrollElasticityOverscroll ev r s) = msg_model s"
  "smooth_scroll_enabled_' (HandleScrollElasticityOverscroll ev r s) = smooth_scroll_enabled_' s"
  "fling_may_be_active_on_main_thread_' (HandleScrollElasticityOverscroll ev r s) =
     fling_may_be_active_on_main_thread_' s"
  "fling_curve_' (HandleScrollElasticityOverscroll ev r s) = fling_curve_' s"
  "gesture_scroll_on_impl_thread_' (HandleScrollElasticityOverscroll ev r s) =
     gesture_scroll_on_impl_thread_' s"
  "gesture_pinch_on_impl_thread_' (HandleScrollElasticityOverscroll ev r s) =
     gesture_pinch_on_impl_thread_' s"
  "start_point_x (HandleScrollElasticityOverscroll ev r s) = start_point_x s"
  "start_point_y (HandleScrollElasticityOverscroll ev r s) = start_point_y s"
  "accumulated_delta_x (HandleScrollElasticityOverscroll ev r s) = accumulated_delta_x s"
  "accumulated_delta_y (HandleScrollElasticityOverscroll ev r s) = accumulated_delta_y s"
  by (simp_all add: HandleScrollElasticityOverscroll_def)

lemma HandleOverscroll_bundled_fields [simp]:
  "calls (HandleOverscroll pt r True s) = calls s"
  "msg_model (HandleOverscroll pt r True s) = msg_model s"
  "smooth_scroll_enabled_' (HandleOverscroll pt r True s) = smooth_scroll_enabled_' s"
  "scroll_elasticity_controller_' (HandleOverscroll pt r True s) =
     scroll_elasticity_controller_' s"
  "gesture_scroll_on_impl_thread_' (HandleOverscroll pt r True s) =
     gesture_scroll_on_impl_thread_' s"
  "gesture_pinch_on_impl_thread_' (HandleOverscroll pt r True s) =
     gesture_pinch_on_impl_thread_' s"
  "start_point_x (HandleOverscroll pt r True s) = start_point_x s"
  "start_point_y (HandleOverscroll pt r True s) = start_point_y s"
  "accumulated_delta_x (HandleOverscroll pt r True s) = accumulated_delta_x s"
  "accumulated_delta_y (HandleOverscroll pt r True s) = accumulated_delta_y s"
  by (simp_all add: HandleOverscroll_def Let_def)

lemma scroll_update_outcome:
  assumes "predict e (s\<lparr>scrollSpeed := int_div (scrollSpeed s) 50\<rparr>)
             (real_of_int (sint (int_div (scrollSpeed s) 50))) = Returned v"
  shows "\<exists>d s' rest. HandleGestureScrollUpdate e event s = Returned (d, s') \<and>
           calls s' = calls s @ scroll_update_sleep_calls (ceil_clamp_double v) @ rest \<and>
           (\<forall>us. Call_Sleep us \<notin> set rest) \<and> Call_Sleep_undefined \<notin> set rest \<and>
           (Call_ScrollBy (CreateScrollStateForGesture event) \<in> set rest \<and>
            did_scroll (ScrollBy e (CreateScrollStateForGesture event)) \<longrightarrow> d = DID_HANDLE) \<and>
           (gesture_scroll_on_impl_thread_' s \<and>
            \<not> ShouldAnimate s (scrollUpdate_deltaUnits event \<noteq> Pixels) \<longrightarrow>
            Call_ScrollBy (CreateScrollStateForGesture event) \<in> set rest) \<and>
           msg_model s' = msg_model s \<and>
           smooth_scroll_enabled_' s' = smooth_scroll_enabled_' s \<and>
           start_point_x s' = start_point_x s \<and> start_point_y s' = start_point_y s \<and>
           gesture_scroll_on_impl_thread_' s' = gesture_scroll_on_impl_thread_' s \<and>
           gesture_pinch_on_impl_thread_' s' = gesture_pinch_on_impl_thread_' s \<and>
           accumulated_delta_x s' =
             (if gesture_scroll_on_impl_thread_' s \<or> gesture_pinch_on_impl_thread_' s
              then double_add e (accumulated_delta_x s) (scrollUpdate_deltaX event)
              else accumulated_delta_x s) \<and>
           accumulated_delta_y s' =
             (if gesture_scroll_on_impl_thread_' s \<or> gesture_pinch_on_impl_thread_' s
              then double_add e (accumulated_delta_y s) (scrollUpdate_deltaY event)
              else accumulated_delta_y s)"
  using assms
  by (simp add: HandleGestureScrollUpdate_def Let_def ShouldAnimate_def
      split: ScrollThread.splits)

lemma pinch_update_calls:
  assumes "gesture_pinch_on_impl_thread_' s"
  shows "\<exists>d s' rest. HandleInputEvent_GesturePinchUpdate e event s = (d, s') \<and>
           calls s' = calls s @ map Call_Sleep (pinch_update_sleeps
              (ceil_clamp (double_add e
                 (double_mul e (double_literal e 0.0213) (real_of_int (sint (scrollSpeed s))))
                 (double_literal e 15.6)))) @ rest \<and>
           (\<forall>us. Call_Sleep us \<notin> set rest) \<and> Call_Sleep_undefined \<notin> set rest"
  using assms
  by (simp add: HandleInputEvent_GesturePinchUpdate_def Let_def)

lemma clamped_unless_NaN:
  assumes "v \<noteq> NaN"
  shows "\<exists>r. ceil_clamp_double v = Finite r \<and> 10 \<le> r \<and> r \<le> 60 \<and>
           real_of_int \<lceil>r\<rceil> = r \<and>
           scroll_update_sleep_calls (ceil_clamp_double v) =
             map Call_Sleep (scroll_update_sleeps r)"
proof (cases v)
  case (Finite p)
  have "real_of_int \<lceil>ceil_clamp p\<rceil> = ceil_clamp p"
    by (simp add: ceil_clamp_eq)
  with Finite show ?thesis
    using ceil_clamp_range [of p]
    by (simp add: ceil_clamp_double_Finite scroll_update_sleep_calls_def)
next
  case PlusInfinity
  then show ?thesis
    by (simp add: ceil_clamp_double_not_finite scroll_update_sleep_calls_def)
next
  case MinusInfinity
  then show ?thesis
    by (simp add: ceil_clamp_double_not_finite scroll_update_sleep_calls_def)
next
  case NaN
  with assms show ?thesis by simp
qed

text \<open>
  Claim C4, amended. A prediction that is not NaN is rounded up to an integer and
  clamped before the delay table is read: a finite prediction below 10 gives 10, one
  above 60 gives 60, any other gives its ceiling, minus infinity gives 10 and plus
  infinity gives 60, so the rate that reaches the table is an integer between 10 and
  60, and the scroll update sleeps what the table gives there and nothing else. A NaN
  prediction is not clamped: \<^verbatim>\<open>ceil\<close> returns NaN, neither \<^verbatim>\<open>fps<10\<close> nor \<^verbatim>\<open>fps>60\<close> holds,
  and the chain is entered with NaN, where its last \<^verbatim>\<open>else\<close> calls \<^verbatim>\<open>Sleep\<close> with the
  conversion of NaN. A pinch update on the compositor thread computes its rate from an
  \<^verbatim>\<open>int\<close>; that rate is always clamped into 10 to 60, and the update sleeps what the
  table gives there and nothing else.
\<close>

theorem rate_clamped_unless_NaN:
  "ceil_clamp_double (Finite p) = Finite (ceil_clamp p) \<and>
   10 \<le> ceil_clamp p \<and> ceil_clamp p \<le> 60 \<and>
   ceil_clamp p = (if p < 10 then 10 else if p > 60 then 60 else real_of_int \<lceil>p\<rceil>) \<and>
   ceil_clamp_double MinusInfinity = Finite 10 \<and>
   ceil_clamp_double PlusInfinity = Finite 60 \<and>
   ceil_clamp_double NaN = NaN \<and>
   scroll_update_sleep_calls NaN = [Call_Sleep_undefined] \<and>
   (v \<noteq> NaN \<longrightarrow>
    (\<exists>r. ceil_clamp_double v = Finite r \<and> 10 \<le> r \<and> r \<le> 60 \<and>
       real_of_int \<lceil>r\<rceil> = r \<and>
       scroll_update_sleep_calls (ceil_clamp_double v) =
         map Call_Sleep (scroll_update_sleeps r))) \<and>
   (predict e (s\<lparr>scrollSpeed := int_div (scrollSpeed s) 50\<rparr>)
      (real_of_int (sint (int_div (scrollSpeed s) 50))) = Returned v \<longrightarrow>
    (\<exists>d s' rest. HandleGestureScrollUpdate e event s = Returned (d, s') \<and>
       calls s' = calls s @ scroll_update_sleep_calls (ceil_clamp_double v) @ rest \<and>
       (\<forall>us. Call_Sleep us \<notin> set rest) \<and> Call_Sleep_undefined \<notin> set rest)) \<and>
   (gesture_pinch_on_impl_thread_' s \<longrightarrow>
    (\<exists>d s' rest. HandleInputEvent_GesturePinchUpdate e event s = (d, s') \<and>
       calls s' = calls s @ map Call_Sleep (pinch_update_sleeps
          (ceil_clamp (double_add e
             (double_mul e (double_literal e 0.0213) (real_of_int (sint (scrollSpeed s))))
             (double_literal e 15.6)))) @ rest \<and>
       (\<forall>us. Call_Sleep us \<notin> set rest) \<and> Call_Sleep_undefined \<notin> set rest))"
proof -
  have "predict e (s\<lparr>scrollSpeed := int_div (scrollSpeed s) 50\<rparr>)
      (real_of_int (sint (int_div (scrollSpeed s) 50))) = Returned v \<longrightarrow>
    (\<exists>d s' rest. HandleGestureScrollUpdate e event s = Returned (d, s') \<and>
       calls s' = calls s @ scroll_update_sleep_calls (ceil_clamp_double v) @ rest \<and>
       (\<forall>us. Call_Sleep us \<notin> set rest) \<and> Call_Sleep_undefined \<notin> set rest)"
    using scroll_update_outcome [of e s v event] by blast
  moreover have "scroll_update_sleep_calls NaN = [Call_Sleep_undefined]"
    by (simp add: scroll_update_sleep_calls_def)
  ultimately show ?thesis
    using ceil_clamp_range [of p] ceil_clamp_eq [of p] ceil_clamp_double_Finite [of p]
      ceil_clamp_double_not_finite clamped_unless_NaN [of v] pinch_update_calls [of s e event]
    by blast
qed

theorem rate_clamped_unless_NaN_witness:
  "ceil_clamp_double (Finite 5) = Finite 10 \<and> ceil_clamp_double (Finite 70) = Finite 60 \<and>
   ceil_clamp_double (Finite (59 / 2)) = Finite 30 \<and>
   Finite 30 \<noteq> NaN \<and>
   predict example_env
     ((initial_state False)\<lparr>msg_model := ''model'', scrollSpeed := 200,
        gesture_pinch_on_impl_thread_' := True, scrollSpeed := int_div 200 50\<rparr>)
     (real_of_int (sint (int_div (200 :: int32) 50))) = Returned (Finite 30) \<and>
   gesture_pinch_on_impl_thread_'
     ((initial_state False)\<lparr>msg_model := ''model'', scrollSpeed := 200,
        gesture_pinch_on_impl_thread_' := True\<rparr>) \<and>
   (\<exists>d s' rest.
      HandleGestureScrollUpdate example_env (example_gesture GestureScrollUpdate 5 7)
        ((initial_state False)\<lparr>msg_model := ''model'', scrollSpeed := 200,
           gesture_pinch_on_impl_thread_' := True\<rparr>) = Returned (d, s') \<and>
      calls s' = map Call_Sleep (scroll_update_sleeps 30) @ rest \<and>
      (\<forall>us. Call_Sleep us \<notin> set rest) \<and> Call_Sleep_undefined \<notin> set rest) \<and>
   (\<exists>d s' rest.
      HandleInputEvent_GesturePinchUpdate example_env (example_gesture GesturePinchUpdate 5 7)
        ((initial_state False)\<lparr>msg_model := ''model'', scrollSpeed := 200,
           gesture_pinch_on_impl_thread_' := True\<rparr>) = (d, s') \<and>
      calls s' = map Call_Sleep (pinch_update_sleeps 20) @ rest \<and>
      (\<forall>us. Call_Sleep us \<notin> set rest) \<and> Call_Sleep_undefined \<notin> set rest)"
proof -
  let ?s = "(initial_state False)\<lparr>msg_model := ''model'', scrollSpeed := 200,
              gesture_pinch_on_impl_thread_' := True\<rparr>"
  have p: "predict example_env (?s\<lparr>scrollSpeed := int_div (scrollSpeed ?s) 50\<rparr>)
             (real_of_int (sint (int_div (scrollSpeed ?s) 50))) = Returned (Finite 30)"
    by (simp add: predict_def example_env_def data_def initial_state_def)
  have g: "gesture_pinch_on_impl_thread_' ?s" by simp
  have c: "calls ?s = []" by (simp add: initial_state_def)
  have r: "ceil_clamp (double_add example_env
             (double_mul example_env (double_literal example_env 0.0213)
                (real_of_int (sint (scrollSpeed ?s))))
             (double_literal example_env 15.6)) = 20"
    by (simp add: double_add_def double_mul_def double_literal_def example_env_def
        ceil_clamp_def Let_def)
  have c30: "ceil_clamp 30 = 30" "ceil_clamp 5 = 10" "ceil_clamp 70 = 60"
    "ceil_clamp (59 / 2) = 30"
    by (simp_all add: ceil_clamp_eq)
  show ?thesis
    using p g c r c30
      rate_clamped_unless_NaN
        [of 5 "Finite 30" example_env ?s "example_gesture GestureScrollUpdate 5 7"]
      rate_clamped_unless_NaN
        [of 70 "Finite 30" example_env ?s "example_gesture GestureScrollUpdate 5 7"]
      rate_clamped_unless_NaN
        [of "59 / 2" "Finite 30" example_env ?s "example_gesture GestureScrollUpdate 5 7"]
      rate_clamped_unless_NaN
        [of 30 "Finite 30" example_env ?s "example_gesture GesturePinchUpdate 5 7"]
    by simp
qed

text \<open>
  The claim as it was stated fails for a model whose prediction is NaN. With such a
  model loaded, the rate after rounding and clamping is NaN, which is not between 10 and
  60, and the scroll update calls \<^verbatim>\<open>Sleep\<close> with the conversion of NaN before it forwards
  the scroll.
\<close>

theorem NaN_prediction_not_clamped:
  "predict example_env_nan ((initial_state False)\<lparr>msg_model := ''model''\<rparr>) 0 = Returned NaN \<and>
   ceil_clamp_double NaN = NaN \<and>
   \<not> less_double NaN (Finite 10) \<and> \<not> less_double (Finite 60) NaN \<and>
   map_option calls (returned_state
     (HandleGestureScrollUpdate example_env_nan (example_gesture GestureScrollUpdate 5 7)
        ((initial_state False)\<lparr>msg_model := ''model'',
           gesture_scroll_on_impl_thread_' := True\<rparr>))) =
     Some [Call_Sleep_undefined,
           Call_ScrollBy (CreateScrollStateForGesture
             (example_gesture GestureScrollUpdate 5 7))]"
  by (simp add: predict_def example_env_nan_def example_env_def data_def initial_state_def
      HandleGestureScrollUpdate_def Let_def ceil_clamp_double_def scroll_update_sleep_calls_def
      ShouldAnimate_def example_gesture_def WebGestureEvent_default_def int_div_def
      HandleOverscroll_def do_call_def)

subsection \<open>A scroll update from the model message to the disposition\<close>

text \<open>
  Claim C2. After a model message with a model text that loads and the speed 200, the
  next scroll update divides the speed by 50 and asks the model about 4. When the model
  answers 30, the first call the update makes is a sleep of 24997 microseconds, and it
  makes no other sleep; whatever it forwards comes after it. When it then calls
  \<open>ScrollBy\<close> and that reports \<open>did_scroll\<close>, the disposition is \<open>DID_HANDLE\<close>; it calls
  \<open>ScrollBy\<close> whenever a gesture scroll is active on the compositor thread and the
  update is not animated.
\<close>

theorem scroll_update_end_to_end:
  assumes "msg \<noteq> []" and "msg \<noteq> ''stop''"
    and "svm_load_model e (data msg) = Some model"
    and "svm_predict e model [(1, 4)] = Finite 30"
    and "type event = GestureScrollUpdate"
  shows "\<exists>d s' rest.
           HandleInputEvent e event (HandleInputModelMsg msg routing_id 200 s) = Returned (d, s') \<and>
           calls s' = calls s @ Call_Sleep 24997 # rest \<and>
           (\<forall>us. Call_Sleep us \<notin> set rest) \<and> Call_Sleep_undefined \<notin> set rest \<and>
           (Call_ScrollBy (CreateScrollStateForGesture event) \<in> set rest \<and>
            did_scroll (ScrollBy e (CreateScrollStateForGesture event)) \<longrightarrow> d = DID_HANDLE) \<and>
           (gesture_scroll_on_impl_thread_' s \<and>
            \<not> ShouldAnimate s (scrollUpdate_deltaUnits event \<noteq> Pixels) \<longrightarrow>
            Call_ScrollBy (CreateScrollStateForGesture event) \<in> set rest)"
proof -
  let ?s1 = "HandleInputModelMsg msg routing_id 200 s"
  let ?s2 = "?s1\<lparr>scrollCount := scrollCount ?s1 + 1\<rparr>"
  have speed: "int_div (scrollSpeed ?s2) 50 = 4"
    by (simp add: HandleInputModelMsg_def Let_def int_div_def signed_divide_int_def)
  have model: "msg_model ?s2 = msg"
    using assms(1) by (simp add: HandleInputModelMsg_def Let_def)
  have p: "predict e (?s2\<lparr>scrollSpeed := int_div (scrollSpeed ?s2) 50\<rparr>)
             (real_of_int (sint (int_div (scrollSpeed ?s2) 50))) = Returned (Finite 30)"
    unfolding speed using assms model by (simp add: predict_def)
  have sl: "scroll_update_sleep_calls (ceil_clamp_double (Finite 30)) = [Call_Sleep 24997]"
    by (simp add: ceil_clamp_double_Finite scroll_update_sleep_calls_def ceil_clamp_def
        scroll_update_sleeps_def FromMicroseconds_def trunc_toward_zero_def)
  have frame: "calls ?s2 = calls s"
    "gesture_scroll_on_impl_thread_' ?s2 = gesture_scroll_on_impl_thread_' s"
    "ShouldAnimate ?s2 b = ShouldAnimate s b" for b
    by (simp_all add: HandleInputModelMsg_def Let_def ShouldAnimate_def)
  have hie: "HandleInputEvent e event ?s1 = HandleGestureScrollUpdate e event ?s2"
    using assms(5) by (simp add: HandleInputEvent.simps FilterInputEventForFlingBoosting_def)
  from scroll_update_outcome [OF p, of event] show ?thesis
    unfolding hie sl frame by auto
qed

theorem scroll_update_end_to_end_witness:
  "''model'' \<noteq> [] \<and> ''model'' \<noteq> ''stop'' \<and>
   svm_load_model example_env (data ''model'') = Some 0 \<and>
   svm_predict example_env 0 [(1, 4)] = Finite 30 \<and>
   type (example_gesture GestureScrollUpdate 5 7) = GestureScrollUpdate \<and>
   gesture_scroll_on_impl_thread_'
     ((initial_state False)\<lparr>gesture_scroll_on_impl_thread_' := True\<rparr>) \<and>
   \<not> ShouldAnimate ((initial_state False)\<lparr>gesture_scroll_on_impl_thread_' := True\<rparr>)
       (scrollUpdate_deltaUnits (example_gesture GestureScrollUpdate 5 7) \<noteq> Pixels) \<and>
   did_scroll (ScrollBy example_env
     (CreateScrollStateForGesture (example_gesture GestureScrollUpdate 5 7))) \<and>
   (\<exists>s' rest.
      HandleInputEvent example_env (example_gesture GestureScrollUpdate 5 7)
        (HandleInputModelMsg ''model'' 1 200
           ((initial_state False)\<lparr>gesture_scroll_on_impl_thread_' := True\<rparr>)) =
        Returned (DID_HANDLE, s') \<and>
      calls s' = Call_Sleep 24997 # rest \<and>
      Call_ScrollBy (CreateScrollStateForGesture (example_gesture GestureScrollUpdate 5 7))
        \<in> set rest)"
proof -
  let ?s = "(initial_state False)\<lparr>gesture_scroll_on_impl_thread_' := True\<rparr>"
  let ?ev = "example_gesture GestureScrollUpdate 5 7"
  have h1: "''model'' \<noteq> []" and h2: "''model'' \<noteq> ''stop''" by simp_all
  have h3: "svm_load_model example_env (data ''model'') = Some 0"
    by (simp add: example_env_def data_def)
  have h4: "svm_predict example_env 0 [(1, 4)] = Finite 30" by (simp add: example_env_def)
  have h5: "type ?ev = GestureScrollUpdate" by (simp add: example_gesture_def)
  have g: "gesture_scroll_on_impl_thread_' ?s" by simp
  have a: "\<not> ShouldAnimate ?s (scrollUpdate_deltaUnits ?ev \<noteq> Pixels)"
    by (simp add: ShouldAnimate_def initial_state_def)
  have d: "did_scroll (ScrollBy example_env (CreateScrollStateForGesture ?ev))"
    by (simp add: example_env_def)
  have c: "calls ?s = []" by (simp add: initial_state_def)
  from scroll_update_end_to_end [OF h1 h2 h3 h4 h5, of 1 ?s]
  obtain d' s' rest where
    r: "HandleInputEvent example_env ?ev (HandleInputModelMsg ''model'' 1 200 ?s) =
          Returned (d', s')"
      "calls s' = calls ?s @ Call_Sleep 24997 # rest"
      "Call_ScrollBy (CreateScrollStateForGesture ?ev) \<in> set rest \<and>
         did_scroll (ScrollBy example_env (CreateScrollStateForGesture ?ev)) \<longrightarrow>
         d' = DID_HANDLE"
      "gesture_scroll_on_impl_thread_' ?s \<and>
         \<not> ShouldAnimate ?s (scrollUpdate_deltaUnits ?ev \<noteq> Pixels) \<longrightarrow>
         Call_ScrollBy (CreateScrollStateForGesture ?ev) \<in> set rest"
    by blast
  from r(4) g a have m: "Call_ScrollBy (CreateScrollStateForGesture ?ev) \<in> set rest" by blast
  with r(3) d have "d' = DID_HANDLE" by blast
  with r(1) r(2) c m have
    "\<exists>s' rest.
      HandleInputEvent example_env ?ev (HandleInputModelMsg ''model'' 1 200 ?s) =
        Returned (DID_HANDLE, s') \<and>
      calls s' = Call_Sleep 24997 # rest \<and>
      Call_ScrollBy (CreateScrollStateForGesture ?ev) \<in> set rest"
    by (intro exI [of _ s'] exI [of _ rest]) simp
  with h1 h2 h3 h4 h5 g a d show ?thesis by blast
qed

subsection \<open>Sentinel scroll begins\<close>

text \<open>
  Claim C6. A scroll begin at (-1, -1) or at (0, 0) is dropped. It makes no call on the
  input handler, and it leaves the start positions, the accumulated deltas, the counters,
  the last rate and the speed as they were: the only variable it writes is the rate hint
  \<open>fps\<close>, which takes the event's time stamp times 1000, converted to \<^verbatim>\<open>int\<close>.
\<close>

theorem sentinel_scroll_begin_dropped:
  assumes "type event = GestureScrollBegin"
    and "(x event = - 1 \<and> y event = - 1) \<or> (x event = 0 \<and> y event = 0)"
  shows "\<exists>s'. HandleInputEvent e event s = Returned (DROP_EVENT, s') \<and>
           s' = s\<lparr>fps := double_to_int e (double_mul e (timeStampSeconds event) 1000)\<rparr> \<and>
           start_point_x s' = start_point_x s \<and> start_point_y s' = start_point_y s \<and>
           start_point_x_' s' = start_point_x_' s \<and> start_point_y_' s' = start_point_y_' s \<and>
           accumulated_delta_x s' = accumulated_delta_x s \<and>
           accumulated_delta_y s' = accumulated_delta_y s \<and>
           accumulated_delta_x_' s' = accumulated_delta_x_' s \<and>
           accumulated_delta_y_' s' = accumulated_delta_y_' s \<and>
           pinchCount s' = pinchCount s \<and> scrollCount s' = scrollCount s \<and>
           countScrolling s' = countScrolling s \<and> countPinching s' = countPinching s \<and>
           count s' = count s \<and> last_fps s' = last_fps s \<and>
           scrollSpeed s' = scrollSpeed s \<and> calls s' = calls s"
  using assms
  by (auto simp: HandleInputEvent.simps HandleGestureScrollBegin.simps
      FilterInputEventForFlingBoosting_def)

theorem sentinel_scroll_begin_dropped_witness:
  "type (example_gesture GestureScrollBegin (- 1) (- 1)) = GestureScrollBegin \<and>
   x (example_gesture GestureScrollBegin (- 1) (- 1)) = - 1 \<and>
   y (example_gesture GestureScrollBegin (- 1) (- 1)) = - 1 \<and>
   HandleInputEvent example_env (example_gesture GestureScrollBegin (- 1) (- 1))
     (initial_state False) = Returned (DROP_EVENT, (initial_state False)\<lparr>fps := 1000\<rparr>) \<and>
   type (example_gesture GestureScrollBegin 0 0) = GestureScrollBegin \<and>
   x (example_gesture GestureScrollBegin 0 0) = 0 \<and>
   y (example_gesture GestureScrollBegin 0 0) = 0 \<and>
   HandleInputEvent example_env (example_gesture GestureScrollBegin 0 0)
     (initial_state False) = Returned (DROP_EVENT, (initial_state False)\<lparr>fps := 1000\<rparr>)"
proof -
  have t: "double_to_int example_env
             (double_mul example_env
                (timeStampSeconds (example_gesture GestureScrollBegin px py)) 1000) = 1000"
    for px py
    by (simp add: example_gesture_def double_to_int_def double_mul_def example_env_def
        trunc_toward_zero_def)
  have h1: "type (example_gesture GestureScrollBegin px py) = GestureScrollBegin" for px py
    by (simp add: example_gesture_def)
  have h2: "(x (example_gesture GestureScrollBegin (- 1) (- 1)) = - 1 \<and>
             y (example_gesture GestureScrollBegin (- 1) (- 1)) = - 1) \<or>
            (x (example_gesture GestureScrollBegin (- 1) (- 1)) = 0 \<and>
             y (example_gesture GestureScrollBegin (- 1) (- 1)) = 0)"
    by (simp add: example_gesture_def)
  have h3: "(x (example_gesture GestureScrollBegin 0 0) = - 1 \<and>
             y (example_gesture GestureScrollBegin 0 0) = - 1) \<or>
            (x (example_gesture GestureScrollBegin 0 0) = 0 \<and>
             y (example_gesture GestureScrollBegin 0 0) = 0)"
    by (simp add: example_gesture_def)
  have xy: "x (example_gesture GestureScrollBegin px py) = px"
    "y (example_gesture GestureScrollBegin px py) = py" for px py
    by (simp_all add: example_gesture_def)
  show ?thesis
    using sentinel_scroll_begin_dropped [OF h1 h2, of example_env "initial_state False"]
      sentinel_scroll_begin_dropped [OF h1 h3, of example_env "initial_state False"]
    by (simp add: t h1 xy)
qed

subsection \<open>Cancelling a fling\<close>

lemma after_cancel_fields [simp]:
  "msg_model (snd (HandleGestureScrollBegin_after_cancel e ev s)) = msg_model s"
  "smooth_scroll_enabled_' (snd (HandleGestureScrollBegin_after_cancel e ev s)) =
     smooth_scroll_enabled_' s"
  "fling_may_be_active_on_main_thread_' (snd (HandleGestureScrollBegin_after_cancel e ev s)) =
     fling_may_be_active_on_main_thread_' s"
  "fling_curve_' (snd (HandleGestureScrollBegin_after_cancel e ev s)) = fling_curve_' s"
  "gesture_pinch_on_impl_thread_' (snd (HandleGestureScrollBegin_after_cancel e ev s)) =
     gesture_pinch_on_impl_thread_' s"
  "start_point_x (snd (HandleGestureScrollBegin_after_cancel e ev s)) = real_of_int (x ev)"
  "start_point_y (snd (HandleGestureScrollBegin_after_cancel e ev s)) = real_of_int (y ev)"
  "accumulated_delta_x (snd (HandleGestureScrollBegin_after_cancel e ev s)) =
     accumulated_delta_x s"
  "accumulated_delta_y (snd (HandleGestureScrollBegin_after_cancel e ev s)) =
     accumulated_delta_y s"
  by (simp_all add: HandleGestureScrollBegin_after_cancel_def Let_def case_prod_beta
      split: ScrollThread.splits)

lemma HandleGestureScrollBegin_idle:
  "\<not> gesture_scroll_on_impl_thread_' s \<Longrightarrow>
   HandleGestureScrollBegin e ev s =
     Returned (if (x ev = - 1 \<and> y ev = - 1) \<or> (x ev = 0 \<and> y ev = 0)
               then (DROP_EVENT,
                     s\<lparr>fps := double_to_int e (double_mul e (timeStampSeconds ev) 1000)\<rparr>)
               else HandleGestureScrollBegin_after_cancel e ev s)"
  by (simp add: HandleGestureScrollBegin.simps)

lemma HandleInputEvent_begin_idle:
  "\<not> gesture_scroll_on_impl_thread_' s \<Longrightarrow> type ev = GestureScrollBegin \<Longrightarrow>
   HandleInputEvent e ev s =
     Returned (if (x ev = - 1 \<and> y ev = - 1) \<or> (x ev = 0 \<and> y ev = 0)
               then (DROP_EVENT,
                     s\<lparr>fps := double_to_int e (double_mul e (timeStampSeconds ev) 1000)\<rparr>)
               else HandleGestureScrollBegin_after_cancel e ev s)"
  by (simp add: HandleInputEvent.simps FilterInputEventForFlingBoosting_def
      HandleGestureScrollBegin_idle)

lemma type_ObtainGestureScrollBegin [simp]:
  "type (ObtainGestureScrollBegin e ev) = GestureScrollBegin"
  by (simp add: ObtainGestureScrollBegin_def Let_def)

lemma CancelCurrentFlingWithoutNotifyingClient_result:
  "\<exists>s'. CancelCurrentFlingWithoutNotifyingClient e s = Returned (fling_curve_' s, s') \<and>
        msg_model s' = msg_model s \<and>
        smooth_scroll_enabled_' s' = smooth_scroll_enabled_' s \<and>
        fling_may_be_active_on_main_thread_' s' = fling_may_be_active_on_main_thread_' s \<and>
        gesture_pinch_on_impl_thread_' s' = gesture_pinch_on_impl_thread_' s \<and>
        accumulated_delta_x s' = accumulated_delta_x s \<and>
        accumulated_delta_y s' = accumulated_delta_y s \<and>
        \<not> fling_curve_' s'"
  by (simp add: CancelCurrentFlingWithoutNotifyingClient.simps Let_def do_call_def
      HandleInputEvent_begin_idle case_prod_beta)

lemma CancelCurrentFling_result:
  "\<exists>s'. CancelCurrentFling e s = Returned (fling_curve_' s, s') \<and>
        msg_model s' = msg_model s \<and>
        smooth_scroll_enabled_' s' = smooth_scroll_enabled_' s \<and>
        fling_may_be_active_on_main_thread_' s' = fling_may_be_active_on_main_thread_' s \<and>
        gesture_pinch_on_impl_thread_' s' = gesture_pinch_on_impl_thread_' s \<and>
        accumulated_delta_x s' = accumulated_delta_x s \<and>
        accumulated_delta_y s' = accumulated_delta_y s \<and>
        \<not> fling_curve_' s'"
  using CancelCurrentFlingWithoutNotifyingClient_result [of e s]
  by (auto simp: CancelCurrentFling.simps)

text \<open>
  Claim C10. \<open>FilterInputEventForFlingBoosting\<close> returns false for every event and
  changes nothing. A fling start therefore reaches the dispatch, where it shares the case
  of the fling cancel: the disposition is \<open>DID_HANDLE\<close> when there was a fling curve to
  cancel, else \<open>DROP_EVENT\<close> when no fling may be active on the main thread, else
  \<open>DID_NOT_HANDLE\<close>; and there is no fling curve afterwards.
\<close>

theorem fling_start_falls_through_to_cancel:
  "FilterInputEventForFlingBoosting event s = (False, s) \<and>
   (type event = GestureFlingStart \<longrightarrow>
      (\<exists>s'. HandleInputEvent e event s =
              Returned (if fling_curve_' s then DID_HANDLE
                        else if \<not> fling_may_be_active_on_main_thread_' s then DROP_EVENT
                        else DID_NOT_HANDLE, s') \<and>
            \<not> fling_curve_' s'))"
  using CancelCurrentFling_result [of e s]
  by (auto simp: HandleInputEvent.simps FilterInputEventForFlingBoosting_def)

theorem fling_start_falls_through_to_cancel_witness:
  "type (example_gesture GestureFlingStart 5 7) = GestureFlingStart \<and>
   (\<exists>s'. HandleInputEvent example_env (example_gesture GestureFlingStart 5 7)
            (initial_state False) = Returned (DROP_EVENT, s') \<and> \<not> fling_curve_' s') \<and>
   (\<exists>s'. HandleInputEvent example_env (example_gesture GestureFlingStart 5 7)
            ((initial_state False)\<lparr>fling_curve_' := True\<rparr>) = Returned (DID_HANDLE, s') \<and>
          \<not> fling_curve_' s') \<and>
   (\<exists>s'. HandleInputEvent example_env (example_gesture GestureFlingStart 5 7)
            ((initial_state False)\<lparr>fling_may_be_active_on_main_thread_' := True\<rparr>) =
            Returned (DID_NOT_HANDLE, s') \<and> \<not> fling_curve_' s')"
proof -
  have t: "type (example_gesture GestureFlingStart 5 7) = GestureFlingStart"
    by (simp add: example_gesture_def)
  have i: "\<not> fling_curve_' (initial_state False)"
    "\<not> fling_may_be_active_on_main_thread_' (initial_state False)"
    by (simp_all add: initial_state_def)
  show ?thesis
    using t i
      fling_start_falls_through_to_cancel
        [of "example_gesture GestureFlingStart 5 7" "initial_state False" example_env]
      fling_start_falls_through_to_cancel
        [of "example_gesture GestureFlingStart 5 7"
            "(initial_state False)\<lparr>fling_curve_' := True\<rparr>" example_env]
      fling_start_falls_through_to_cancel
        [of "example_gesture GestureFlingStart 5 7"
            "(initial_state False)\<lparr>fling_may_be_active_on_main_thread_' := True\<rparr>" example_env]
    by simp
qed

subsection \<open>A whole scroll stream\<close>

lemma ex_pair_eq: "(\<exists>a b. p = (a, b) \<and> P a b) \<longleftrightarrow> P (fst p) (snd p)"
  by (cases p) simp

lemma HandleGestureScrollBegin_result:
  "\<exists>d s'. HandleGestureScrollBegin e ev s = Returned (d, s') \<and>
        msg_model s' = msg_model s \<and>
        smooth_scroll_enabled_' s' = smooth_scroll_enabled_' s \<and>
        gesture_pinch_on_impl_thread_' s' = gesture_pinch_on_impl_thread_' s \<and>
        accumulated_delta_x s' = accumulated_delta_x s \<and>
        accumulated_delta_y s' = accumulated_delta_y s \<and>
        ((x ev = - 1 \<and> y ev = - 1) \<or> (x ev = 0 \<and> y ev = 0) \<or>
         start_point_x s' = real_of_int (x ev) \<and> start_point_y s' = real_of_int (y ev))"
  using CancelCurrentFling_result [of e s]
  by (auto simp: HandleGestureScrollBegin.simps ex_pair_eq)

lemma predict_returns:
  "msg_model s = [] \<or> msg_model s = ''stop'' \<or>
   svm_load_model e (data (msg_model s)) \<noteq> None \<Longrightarrow>
   \<exists>p. predict e s v = Returned p"
  by (auto simp: predict_def split: option.splits)

text \<open>
  The accumulated delta after a list of scroll updates that all reach the accumulation:
  each update adds its delta, in order, and the sum is rounded every time.
\<close>

lemma HandleGestureScrollUpdate_result:
  assumes "msg_model s = [] \<or> msg_model s = ''stop'' \<or>
           svm_load_model e (data (msg_model s)) \<noteq> None"
  shows "\<exists>d s'. HandleGestureScrollUpdate e ev s = Returned (d, s') \<and>
           msg_model s' = msg_model s \<and>
           smooth_scroll_enabled_' s' = smooth_scroll_enabled_' s \<and>
           start_point_x s' = start_point_x s \<and> start_point_y s' = start_point_y s \<and>
           gesture_scroll_on_impl_thread_' s' = gesture_scroll_on_impl_thread_' s \<and>
           gesture_pinch_on_impl_thread_' s' = gesture_pinch_on_impl_thread_' s \<and>
           accumulated_delta_x s' =
             (if gesture_scroll_on_impl_thread_' s \<or> gesture_pinch_on_impl_thread_' s
              then double_add e (accumulated_delta_x s) (scrollUpdate_deltaX ev)
              else accumulated_delta_x s) \<and>
           accumulated_delta_y s' =
             (if gesture_scroll_on_impl_thread_' s \<or> gesture_pinch_on_impl_thread_' s
              then double_add e (accumulated_delta_y s) (scrollUpdate_deltaY ev)
              else accumulated_delta_y s)"
proof -
  have "\<exists>v. predict e (s\<lparr>scrollSpeed := int_div (scrollSpeed s) 50\<rparr>)
             (real_of_int (sint (int_div (scrollSpeed s) 50))) = Returned v"
    using assms by (intro predict_returns) simp
  then obtain v where v: "predict e (s\<lparr>scrollSpeed := int_div (scrollSpeed s) 50\<rparr>)
             (real_of_int (sint (int_div (scrollSpeed s) 50))) = Returned v" ..
  from scroll_update_outcome [OF v, of ev] show ?thesis by blast
qed

lemma HandleGestureScrollEnd_resets:
  assumes "\<not> ShouldAnimate s (scrollEnd_deltaUnits ev \<noteq> Pixels)"
  shows "start_point_x_' (snd (HandleGestureScrollEnd ev s)) = 0 \<and>
         start_point_y_' (snd (HandleGestureScrollEnd ev s)) = 0 \<and>
         accumulated_delta_x_' (snd (HandleGestureScrollEnd ev s)) = 0 \<and>
         accumulated_delta_y_' (snd (HandleGestureScrollEnd ev s)) = 0 \<and>
         start_point_x (snd (HandleGestureScrollEnd ev s)) = start_point_x s \<and>
         start_point_y (snd (HandleGestureScrollEnd ev s)) = start_point_y s \<and>
         accumulated_delta_x (snd (HandleGestureScrollEnd ev s)) = accumulated_delta_x s \<and>
         accumulated_delta_y (snd (HandleGestureScrollEnd ev s)) = accumulated_delta_y s"
  using assms
  by (auto simp: HandleGestureScrollEnd_def Let_def do_call_def ShouldAnimate_def
      HandleScrollElasticityOverscroll_def)

lemma handle_events_updates:
  assumes "\<forall>p\<in>set us. type (snd p) = GestureScrollUpdate \<and>
             (msg_model s = [] \<or> msg_model s = ''stop'' \<or>
              svm_load_model (fst p) (data (msg_model s)) \<noteq> None)"
  shows "\<exists>ds s'. handle_events us s = Returned (ds, s') \<and> length ds = length us \<and>
           msg_model s' = msg_model s \<and>
           smooth_scroll_enabled_' s' = smooth_scroll_enabled_' s \<and>
           start_point_x s' = start_point_x s \<and> start_point_y s' = start_point_y s \<and>
           accumulated_delta_x s' =
             (if gesture_scroll_on_impl_thread_' s \<or> gesture_pinch_on_impl_thread_' s
              then foldl (\<lambda>a p. double_add (fst p) a (scrollUpdate_deltaX (snd p)))
                     (accumulated_delta_x s) us
              else accumulated_delta_x s) \<and>
           accumulated_delta_y s' =
             (if gesture_scroll_on_impl_thread_' s \<or> gesture_pinch_on_impl_thread_' s
              then foldl (\<lambda>a p. double_add (fst p) a (scrollUpdate_deltaY (snd p)))
                     (accumulated_delta_y s) us
              else accumulated_delta_y s)"
  using assms
proof (induction us arbitrary: s)
  case Nil
  then show ?case by simp
next
  case (Cons p us)
  let ?s0 = "s\<lparr>scrollCount := scrollCount s + 1\<rparr>"
  from Cons.prems have ty: "type (snd p) = GestureScrollUpdate"
    and ok: "msg_model ?s0 = [] \<or> msg_model ?s0 = ''stop'' \<or>
             svm_load_model (fst p) (data (msg_model ?s0)) \<noteq> None"
    by auto
  from HandleGestureScrollUpdate_result [OF ok, of "snd p"]
  obtain d s1 where step: "HandleGestureScrollUpdate (fst p) (snd p) ?s0 = Returned (d, s1)"
    and k: "msg_model s1 = msg_model s" "smooth_scroll_enabled_' s1 = smooth_scroll_enabled_' s"
      "start_point_x s1 = start_point_x s" "start_point_y s1 = start_point_y s"
      "gesture_scroll_on_impl_thread_' s1 = gesture_scroll_on_impl_thread_' s"
      "gesture_pinch_on_impl_thread_' s1 = gesture_pinch_on_impl_thread_' s"
    and a: "accumulated_delta_x s1 =
             (if gesture_scroll_on_impl_thread_' s \<or> gesture_pinch_on_impl_thread_' s
              then double_add (fst p) (accumulated_delta_x s) (scrollUpdate_deltaX (snd p))
              else accumulated_delta_x s)"
      "accumulated_delta_y s1 =
             (if gesture_scroll_on_impl_thread_' s \<or> gesture_pinch_on_impl_thread_' s
              then double_add (fst p) (accumulated_delta_y s) (scrollUpdate_deltaY (snd p))
              else accumulated_delta_y s)"
    by auto
  have hie: "HandleInputEvent (fst p) (snd p) s = Returned (d, s1)"
    using ty step by (simp add: HandleInputEvent.simps FilterInputEventForFlingBoosting_def)
  have "\<forall>q\<in>set us. type (snd q) = GestureScrollUpdate \<and>
             (msg_model s1 = [] \<or> msg_model s1 = ''stop'' \<or>
              svm_load_model (fst q) (data (msg_model s1)) \<noteq> None)"
    using Cons.prems k by simp
  from Cons.IH [OF this]
  obtain ds s' where rest: "handle_events us s1 = Returned (ds, s')" "length ds = length us"
    "msg_model s' = msg_model s1" "smooth_scroll_enabled_' s' = smooth_scroll_enabled_' s1"
    "start_point_x s' = start_point_x s1" "start_point_y s' = start_point_y s1"
    "accumulated_delta_x s' =
       (if gesture_scroll_on_impl_thread_' s1 \<or> gesture_pinch_on_impl_thread_' s1
        then foldl (\<lambda>a p. double_add (fst p) a (scrollUpdate_deltaX (snd p)))
               (accumulated_delta_x s1) us
        else accumulated_delta_x s1)"
    "accumulated_delta_y s' =
       (if gesture_scroll_on_impl_thread_' s1 \<or> gesture_pinch_on_impl_thread_' s1
        then foldl (\<lambda>a p. double_add (fst p) a (scrollUpdate_deltaY (snd p)))
               (accumulated_delta_y s1) us
        else accumulated_delta_y s1)"
    by blast
  show ?case using hie rest k a by simp
qed

lemma handle_events_append:
  "handle_events (xs @ ys) s =
     (case handle_events xs s of
        ProcessExit code \<Rightarrow> ProcessExit code
      | Returned (ds, s1) \<Rightarrow>
          (case handle_events ys s1 of
             ProcessExit code \<Rightarrow> ProcessExit code
           | Returned (ds', s2) \<Rightarrow> Returned (ds @ ds', s2)))"
  by (induction xs arbitrary: s) (auto split: outcome.splits)

text \<open>
  Claim C7, amended. Take a proxy whose model text is empty, is \<open>''stop''\<close> or loads, and
  on it a scroll begin, any number \<open>N\<close> of scroll updates (in particular 0, 1, 5 or 100)
  and a scroll end that is not animated. The stream is handled to its end, and afterwards
  the working copies \<open>start_point_x_\<close>, \<open>start_point_y_\<close>, \<open>accumulated_delta_x_\<close> and
  \<open>accumulated_delta_y_\<close> are zero. The other four variables are not reset:
  \<open>start_point_x\<close> and \<open>start_point_y\<close> still hold the position of the begin event, unless
  it was a sentinel; \<open>accumulated_delta_x\<close> and \<open>accumulated_delta_y\<close> are left as they
  were by the begin and by the end, and every update handled while a gesture scroll or
  a pinch is active on the compositor thread adds its delta to them, so that after the
  stream they hold their value from before the stream plus the deltas of the \<open>N\<close>
  updates, or their value from before the stream when neither is active.
\<close>

theorem stream_end_resets_working_copies:
  assumes "type b = GestureScrollBegin"
    and "\<forall>p\<in>set us. type (snd p) = GestureScrollUpdate \<and>
           (msg_model s = [] \<or> msg_model s = ''stop'' \<or>
            svm_load_model (fst p) (data (msg_model s)) \<noteq> None)"
    and "type en = GestureScrollEnd"
    and "\<not> ShouldAnimate s (scrollEnd_deltaUnits en \<noteq> Pixels)"
  shows "\<exists>d1 s1 ds s'.
           HandleInputEvent eb b s = Returned (d1, s1) \<and>
           handle_events ((eb, b) # us @ [(ee, en)]) s = Returned (ds, s') \<and>
           length ds = length us + 2 \<and>
           start_point_x_' s' = 0 \<and> start_point_y_' s' = 0 \<and>
           accumulated_delta_x_' s' = 0 \<and> accumulated_delta_y_' s' = 0 \<and>
           ((x b = - 1 \<and> y b = - 1) \<or> (x b = 0 \<and> y b = 0) \<or>
            start_point_x s' = real_of_int (x b) \<and> start_point_y s' = real_of_int (y b)) \<and>
           accumulated_delta_x s1 = accumulated_delta_x s \<and>
           accumulated_delta_y s1 = accumulated_delta_y s \<and>
           accumulated_delta_x s' =
             (if gesture_scroll_on_impl_thread_' s1 \<or> gesture_pinch_on_impl_thread_' s1
              then foldl (\<lambda>a p. double_add (fst p) a (scrollUpdate_deltaX (snd p)))
                     (accumulated_delta_x s) us
              else accumulated_delta_x s) \<and>
           accumulated_delta_y s' =
             (if gesture_scroll_on_impl_thread_' s1 \<or> gesture_pinch_on_impl_thread_' s1
              then foldl (\<lambda>a p. double_add (fst p) a (scrollUpdate_deltaY (snd p)))
                     (accumulated_delta_y s) us
              else accumulated_delta_y s)"
proof -
  from HandleGestureScrollBegin_result [of eb b s]
  obtain d1 s1 where b1: "HandleGestureScrollBegin eb b s = Returned (d1, s1)"
    and k1: "msg_model s1 = msg_model s" "smooth_scroll_enabled_' s1 = smooth_scroll_enabled_' s"
      "(x b = - 1 \<and> y b = - 1) \<or> (x b = 0 \<and> y b = 0) \<or>
       start_point_x s1 = real_of_int (x b) \<and> start_point_y s1 = real_of_int (y b)"
    and a1: "accumulated_delta_x s1 = accumulated_delta_x s"
      "accumulated_delta_y s1 = accumulated_delta_y s"
    by blast
  have hb: "HandleInputEvent eb b s = Returned (d1, s1)"
    using assms(1) b1 by (simp add: HandleInputEvent.simps FilterInputEventForFlingBoosting_def)
  have "\<forall>p\<in>set us. type (snd p) = GestureScrollUpdate \<and>
           (msg_model s1 = [] \<or> msg_model s1 = ''stop'' \<or>
            svm_load_model (fst p) (data (msg_model s1)) \<noteq> None)"
    using assms(2) k1 by simp
  from handle_events_updates [OF this]
  obtain ds s2 where u: "handle_events us s1 = Returned (ds, s2)" "length ds = length us"
    and k2: "smooth_scroll_enabled_' s2 = smooth_scroll_enabled_' s1"
      "start_point_x s2 = start_point_x s1" "start_point_y s2 = start_point_y s1"
    and a2: "accumulated_delta_x s2 =
       (if gesture_scroll_on_impl_thread_' s1 \<or> gesture_pinch_on_impl_thread_' s1
        then foldl (\<lambda>a p. double_add (fst p) a (scrollUpdate_deltaX (snd p)))
               (accumulated_delta_x s1) us
        else accumulated_delta_x s1)"
      "accumulated_delta_y s2 =
       (if gesture_scroll_on_impl_thread_' s1 \<or> gesture_pinch_on_impl_thread_' s1
        then foldl (\<lambda>a p. double_add (fst p) a (scrollUpdate_deltaY (snd p)))
               (accumulated_delta_y s1) us
        else accumulated_delta_y s1)"
    by blast
  have na: "\<not> ShouldAnimate s2 (scrollEnd_deltaUnits en \<noteq> Pixels)"
    using assms(4) k1 k2 by (simp add: ShouldAnimate_def)
  have he: "HandleInputEvent ee en s2 = Returned (HandleGestureScrollEnd en s2)"
    using assms(3) by (simp add: HandleInputEvent.simps FilterInputEventForFlingBoosting_def)
  let ?s' = "snd (HandleGestureScrollEnd en s2)"
  let ?ds = "d1 # ds @ [fst (HandleGestureScrollEnd en s2)]"
  have run: "handle_events ((eb, b) # us @ [(ee, en)]) s = Returned (?ds, ?s')"
    using hb u he by (simp add: handle_events_append case_prod_beta)
  from HandleGestureScrollEnd_resets [OF na] k1 k2 a1 a2 u(2)
  have "length ?ds = length us + 2 \<and>
           start_point_x_' ?s' = 0 \<and> start_point_y_' ?s' = 0 \<and>
           accumulated_delta_x_' ?s' = 0 \<and> accumulated_delta_y_' ?s' = 0 \<and>
           ((x b = - 1 \<and> y b = - 1) \<or> (x b = 0 \<and> y b = 0) \<or>
            start_point_x ?s' = real_of_int (x b) \<and> start_point_y ?s' = real_of_int (y b)) \<and>
           accumulated_delta_x s1 = accumulated_delta_x s \<and>
           accumulated_delta_y s1 = accumulated_delta_y s \<and>
           accumulated_delta_x ?s' =
             (if gesture_scroll_on_impl_thread_' s1 \<or> gesture_pinch_on_impl_thread_' s1
              then foldl (\<lambda>a p. double_add (fst p) a (scrollUpdate_deltaX (snd p)))
                     (accumulated_delta_x s) us
              else accumulated_delta_x s) \<and>
           accumulated_delta_y ?s' =
             (if gesture_scroll_on_impl_thread_' s1 \<or> gesture_pinch_on_impl_thread_' s1
              then foldl (\<lambda>a p. double_add (fst p) a (scrollUpdate_deltaY (snd p)))
                     (accumulated_delta_y s) us
              else accumulated_delta_y s)"
    by simp
  with hb run show ?thesis by blast
qed

theorem stream_end_resets_working_copies_witness:
  "type (example_gesture GestureScrollBegin 5 7) = GestureScrollBegin \<and>
   set (replicate 5 (example_env, example_gesture GestureScrollUpdate 5 7)) =
     {(example_env, example_gesture GestureScrollUpdate 5 7)} \<and>
   type (example_gesture GestureScrollUpdate 5 7) = GestureScrollUpdate \<and>
   msg_model (initial_state False) = [] \<and>
   type (example_gesture GestureScrollEnd 5 7) = GestureScrollEnd \<and>
   \<not> ShouldAnimate (initial_state False)
       (scrollEnd_deltaUnits (example_gesture GestureScrollEnd 5 7) \<noteq> Pixels) \<and>
   (\<exists>ds s'. handle_events (example_stream 5) (initial_state False) = Returned (ds, s') \<and>
      length ds = 7 \<and>
      start_point_x_' s' = 0 \<and> start_point_y_' s' = 0 \<and>
      accumulated_delta_x_' s' = 0 \<and> accumulated_delta_y_' s' = 0 \<and>
      start_point_x s' = 5 \<and> start_point_y s' = 7)"
proof -
  have h1: "type (example_gesture GestureScrollBegin 5 7) = GestureScrollBegin"
    by (simp add: example_gesture_def)
  have h2: "\<forall>p\<in>set (replicate 5 (example_env, example_gesture GestureScrollUpdate 5 7)).
      type (snd p) = GestureScrollUpdate \<and>
      (msg_model (initial_state False) = [] \<or> msg_model (initial_state False) = ''stop'' \<or>
       svm_load_model (fst p) (data (msg_model (initial_state False))) \<noteq> None)"
    by (simp add: example_gesture_def initial_state_def)
  have h3: "type (example_gesture GestureScrollEnd 5 7) = GestureScrollEnd"
    by (simp add: example_gesture_def)
  have h4: "\<not> ShouldAnimate (initial_state False)
       (scrollEnd_deltaUnits (example_gesture GestureScrollEnd 5 7) \<noteq> Pixels)"
    by (simp add: ShouldAnimate_def initial_state_def)
  have xy: "x (example_gesture GestureScrollBegin 5 7) = 5"
    "y (example_gesture GestureScrollBegin 5 7) = 7"
    by (simp_all add: example_gesture_def)
  from stream_end_resets_working_copies [OF h1 h2 h3 h4, of example_env example_env]
  have "\<exists>ds s'. handle_events (example_stream 5) (initial_state False) = Returned (ds, s') \<and>
      length ds = 7 \<and>
      start_point_x_' s' = 0 \<and> start_point_y_' s' = 0 \<and>
      accumulated_delta_x_' s' = 0 \<and> accumulated_delta_y_' s' = 0 \<and>
      start_point_x s' = 5 \<and> start_point_y s' = 7"
    unfolding example_stream_def xy by auto
  moreover have "set (replicate 5 (example_env, example_gesture GestureScrollUpdate 5 7)) =
     {(example_env, example_gesture GestureScrollUpdate 5 7)}"
    by simp
  moreover have "type (example_gesture GestureScrollUpdate 5 7) = GestureScrollUpdate"
    by (simp add: example_gesture_def)
  moreover have "msg_model (initial_state False) = []"
    by (simp add: initial_state_def)
  ultimately show ?thesis using h1 h3 h4 by blast
qed

text \<open>
  The claim as it was stated fails for \<open>N = 0\<close> and for \<open>N = 1\<close>: after a begin at
  (5, 7) and the end, \<open>start_point_x\<close> is 5 and \<open>start_point_y\<close> is 7; with one update
  that moved by 3 in between, \<open>accumulated_delta_y\<close> is 3 as well, and with five such
  updates it is 15.
\<close>

theorem stream_end_keeps_start_position:
  "map_option start_point_x
     (returned_state (handle_events (example_stream 0) (initial_state False))) = Some 5 \<and>
   map_option start_point_y
     (returned_state (handle_events (example_stream 0) (initial_state False))) = Some 7 \<and>
   map_option start_point_x
     (returned_state (handle_events (example_stream 1) (initial_state False))) = Some 5 \<and>
   map_option start_point_y
     (returned_state (handle_events (example_stream 1) (initial_state False))) = Some 7 \<and>
   map_option accumulated_delta_y
     (returned_state (handle_events (example_stream 1) (initial_state False))) = Some 3 \<and>
   map_option accumulated_delta_y
     (returned_state (handle_events (example_stream 5) (initial_state False))) = Some 15"
  by (simp add: example_stream_def example_env_def example_gesture_def initial_state_def
      WebGestureEvent_default_def HandleInputEvent.simps FilterInputEventForFlingBoosting_def
      HandleGestureScrollBegin.simps HandleGestureScrollBegin_after_cancel_def
      HandleGestureScrollUpdate_def HandleGestureScrollEnd_def predict_def
      ceil_clamp_double_def ceil_clamp_def scroll_update_sleep_calls_def
      scroll_update_sleeps_def ShouldAnimate_def HandleOverscroll_def double_add_def
      CreateScrollStateForGesture_def GestureScrollInputType_def int_div_def Let_def
      do_call_def HandleScrollElasticityOverscroll_def eval_nat_numeral)

end
